theory Spec2Isabelle
  imports Main "HOL-Library.Word"
begin

unbundle bit_operations_syntax

section \<open>The S6 importer (src/openrct2/rct2/S6Importer.cpp)\<close>

text \<open>
  A shallow embedding of the parts of \<^verbatim>\<open>S6Importer\<close> that decode the legacy
  RollerCoaster Tycoon 2 scenario (SC6) and saved-game (SV6) layout: the chunk sequence of
  \<^verbatim>\<open>LoadFromStream\<close>, the tile decoder, the peep-spawn and ride migration, the
  research bitmaps and the filename-keyed fix-ups.

  Declarations that live in headers outside the importer (the bit positions behind the
  tile getters, array capacities, the chunk reader) are parameters of the model, so every
  theorem holds for whatever those headers declare.
\<close>

type_synonym u8 = "8 word"
type_synonym u16 = "16 word"
type_synonym u32 = "32 word"

subsection \<open>Peep spawns\<close>

text \<open>
  \<^verbatim>\<open>rct12_peep_spawn\<close> is the raw entry; \<^verbatim>\<open>PeepSpawn\<close> the destination. The
  importer builds the destination with a braced initialiser from \<^verbatim>\<open>x\<close>, \<^verbatim>\<open>y\<close>,
  \<^verbatim>\<open>z * 16\<close> and \<^verbatim>\<open>direction\<close>; the product is an \<^verbatim>\<open>int\<close> after integer
  promotion, and a braced initialiser admits no narrowing, so the destination coordinates are
  modelled as \<open>int\<close>.
\<close>

record rct12_peep_spawn =
  spawn12_x :: u16
  spawn12_y :: u16
  spawn12_z :: u8
  spawn12_direction :: u8

record PeepSpawn =
  spawn_x :: int
  spawn_y :: int
  spawn_z :: int
  spawn_direction :: u8

text \<open>
  Modelled from the spec: the "undefined" sentinel x-coordinate of a peep spawn. Its
  declaration (\<^verbatim>\<open>PEEP_SPAWN_UNDEFINED\<close>) is in a header outside the importer; the
  format uses the all-ones 16-bit value; the general theorems hold whatever the value.
\<close>

definition PEEP_SPAWN_UNDEFINED :: u16 where
  "PEEP_SPAWN_UNDEFINED = 0xFFFF"

text \<open>
  The part of \<^verbatim>\<open>_s6\<close> that \<^verbatim>\<open>ImportPeepSpawns\<close> reads and writes. The array
  \<^verbatim>\<open>peep_spawns\<close> has \<^verbatim>\<open>RCT12_MAX_PEEP_SPAWNS\<close> entries; the list is that array.
\<close>

record s6_spawn_data =
  scenario_filename :: string
  peep_spawns :: "rct12_peep_spawn list"

text \<open>
  Modelled from the spec: \<^verbatim>\<open>String::Equals(a, b)\<close> with its default
  \<^verbatim>\<open>ignoreCase = false\<close> (core/String.hpp is outside the importer): exact string match.
\<close>

definition String_Equals :: "string \<Rightarrow> string \<Rightarrow> bool" where
  "String_Equals a b = (a = b)"

text \<open>The filename-keyed corrections at the head of \<^verbatim>\<open>ImportPeepSpawns\<close> (lines 812-829).\<close>

definition ImportPeepSpawns_fixups :: "s6_spawn_data \<Rightarrow> s6_spawn_data" where
  "ImportPeepSpawns_fixups s6 =
     (if String_Equals (scenario_filename s6) ''WW South America - Rio Carnival.SC6''
         \<or> String_Equals (scenario_filename s6) ''South America - Rio Carnival.SC6''
      then
        (let s6a = s6\<lparr>peep_spawns := (peep_spawns s6)
                    [0 := \<lparr>spawn12_x = 2160, spawn12_y = 3167, spawn12_z = 6, spawn12_direction = 1\<rparr>]\<rparr>
         in s6a\<lparr>peep_spawns := (peep_spawns s6a)
                    [1 := (peep_spawns s6a ! 1)\<lparr>spawn12_x := PEEP_SPAWN_UNDEFINED\<rparr>]\<rparr>)
      else if String_Equals (scenario_filename s6) ''Great Wall of China Tourism Enhancement.SC6''
         \<or> String_Equals (scenario_filename s6) ''Asia - Great Wall of China Tourism Enhancement.SC6''
      then
        s6\<lparr>peep_spawns := (peep_spawns s6)
               [1 := (peep_spawns s6 ! 1)\<lparr>spawn12_x := PEEP_SPAWN_UNDEFINED\<rparr>]\<rparr>
      else if String_Equals (scenario_filename s6) ''Amity Airfield.SC6''
      then
        s6\<lparr>peep_spawns := (peep_spawns s6)
               [0 := (peep_spawns s6 ! 0)\<lparr>spawn12_y := 1296\<rparr>]\<rparr>
      else s6)"

text \<open>The five filenames these corrections are keyed by.\<close>

definition spawn_fixup_filenames :: "string list" where
  "spawn_fixup_filenames =
     [''WW South America - Rio Carnival.SC6'', ''South America - Rio Carnival.SC6'',
      ''Great Wall of China Tourism Enhancement.SC6'',
      ''Asia - Great Wall of China Tourism Enhancement.SC6'',
      ''Amity Airfield.SC6'']"

text \<open>
  The loop of \<^verbatim>\<open>ImportPeepSpawns\<close> (lines 831-840): \<^verbatim>\<open>gPeepSpawns\<close> is cleared and
  the array is scanned by increasing index; \<open>acc\<close> is \<^verbatim>\<open>gPeepSpawns\<close> so far and each
  kept entry is pushed at its back.
\<close>

fun ImportPeepSpawns_loop :: "rct12_peep_spawn list \<Rightarrow> PeepSpawn list \<Rightarrow> PeepSpawn list" where
  "ImportPeepSpawns_loop [] acc = acc"
| "ImportPeepSpawns_loop (p # ps) acc =
     (if spawn12_x p \<noteq> PEEP_SPAWN_UNDEFINED
      then ImportPeepSpawns_loop ps
             (acc @ [\<lparr>spawn_x = uint (spawn12_x p), spawn_y = uint (spawn12_y p),
                      spawn_z = uint (spawn12_z p) * 16,
                      spawn_direction = spawn12_direction p\<rparr>])
      else ImportPeepSpawns_loop ps acc)"

text \<open>\<^verbatim>\<open>ImportPeepSpawns\<close>: returns the updated \<^verbatim>\<open>_s6\<close> and the new \<^verbatim>\<open>gPeepSpawns\<close>.\<close>

definition ImportPeepSpawns :: "s6_spawn_data \<Rightarrow> s6_spawn_data \<times> PeepSpawn list" where
  "ImportPeepSpawns s6 =
     (let s6a = ImportPeepSpawns_fixups s6
      in (s6a, ImportPeepSpawns_loop (peep_spawns s6a) []))"

text \<open>The destination entry the loop builds from one raw entry.\<close>

definition spawn_of :: "rct12_peep_spawn \<Rightarrow> PeepSpawn" where
  "spawn_of p = \<lparr>spawn_x = uint (spawn12_x p), spawn_y = uint (spawn12_y p),
                 spawn_z = uint (spawn12_z p) * 16, spawn_direction = spawn12_direction p\<rparr>"

subsection \<open>Research bitmaps\<close>

text \<open>
  The loop bounds are constants of headers outside the importer; they are the fields of
  \<open>research_limits\<close>. Each source bit array is a list of 32-bit words.
\<close>

record research_limits =
  RIDE_TYPE_COUNT :: nat
  MAX_RIDE_OBJECTS :: nat
  RCT2_MAX_RESEARCHED_SCENERY_ITEMS :: nat

record s6_research_data =
  researched_ride_types :: "u32 list"
  researched_ride_entries :: "u32 list"
  researched_scenery_items :: "u32 list"

text \<open>
  Modelled from the spec: the baseline and the marking operations of management/Research
  (\<^verbatim>\<open>set_every_ride_type_not_invented\<close>, \<^verbatim>\<open>ride_type_set_invented\<close> and their
  ride-entry and scenery counterparts), which are outside the importer: "mark every ride type,
  ride entry, and scenery item as not invented" and "mark the corresponding item invented".
  An invented table maps an item index to its flag.
\<close>

type_synonym invented_table = "nat \<Rightarrow> bool"

definition set_every_ride_type_not_invented :: invented_table where
  "set_every_ride_type_not_invented = (\<lambda>_. False)"

definition ride_type_set_invented :: "nat \<Rightarrow> invented_table \<Rightarrow> invented_table" where
  "ride_type_set_invented rideType tbl = tbl(rideType := True)"

definition set_every_ride_entry_not_invented :: invented_table where
  "set_every_ride_entry_not_invented = (\<lambda>_. False)"

definition ride_entry_set_invented :: "nat \<Rightarrow> invented_table \<Rightarrow> invented_table" where
  "ride_entry_set_invented rideEntryIndex tbl = tbl(rideEntryIndex := True)"

definition set_all_scenery_items_not_invented :: invented_table where
  "set_all_scenery_items_not_invented = (\<lambda>_. False)"

definition scenery_set_invented :: "nat \<Rightarrow> invented_table \<Rightarrow> invented_table" where
  "scenery_set_invented sceneryEntryIndex tbl = tbl(sceneryEntryIndex := True)"

text \<open>
  \<^verbatim>\<open>ImportResearchedRideTypes\<close>, \<^verbatim>\<open>ImportResearchedRideEntries\<close> and
  \<^verbatim>\<open>ImportResearchedSceneryItems\<close>: the baseline, then one pass over the indices below
  the bound. \<^verbatim>\<open>(uint32_t)1 << bitIndex\<close> is \<open>push_bit bitIndex 1\<close> on a 32-bit word and
  the conversion to \<^verbatim>\<open>bool\<close> tests for a non-zero value.
\<close>

definition ImportResearchedRideTypes :: "research_limits \<Rightarrow> s6_research_data \<Rightarrow> invented_table" where
  "ImportResearchedRideTypes L s6 =
     fold (\<lambda>rideType tbl.
             let quadIndex = drop_bit 5 rideType;
                 bitIndex = rideType AND 0x1F;
                 invented = (researched_ride_types s6 ! quadIndex AND push_bit bitIndex (1 :: u32) \<noteq> 0)
             in if invented then ride_type_set_invented rideType tbl else tbl)
          [0..<RIDE_TYPE_COUNT L] set_every_ride_type_not_invented"

definition ImportResearchedRideEntries :: "research_limits \<Rightarrow> s6_research_data \<Rightarrow> invented_table" where
  "ImportResearchedRideEntries L s6 =
     fold (\<lambda>rideEntryIndex tbl.
             let quadIndex = drop_bit 5 rideEntryIndex;
                 bitIndex = rideEntryIndex AND 0x1F;
                 invented = (researched_ride_entries s6 ! quadIndex AND push_bit bitIndex (1 :: u32) \<noteq> 0)
             in if invented then ride_entry_set_invented rideEntryIndex tbl else tbl)
          [0..<MAX_RIDE_OBJECTS L] set_every_ride_entry_not_invented"

definition ImportResearchedSceneryItems :: "research_limits \<Rightarrow> s6_research_data \<Rightarrow> invented_table" where
  "ImportResearchedSceneryItems L s6 =
     fold (\<lambda>sceneryEntryIndex tbl.
             let quadIndex = drop_bit 5 sceneryEntryIndex;
                 bitIndex = sceneryEntryIndex AND 0x1F;
                 invented = (researched_scenery_items s6 ! quadIndex AND push_bit bitIndex (1 :: u32) \<noteq> 0)
             in if invented then scenery_set_invented sceneryEntryIndex tbl else tbl)
          [0..<RCT2_MAX_RESEARCHED_SCENERY_ITEMS L] set_all_scenery_items_not_invented"

text \<open>
  The bit arrays are fixed-size members of \<^verbatim>\<open>_s6\<close> that hold a bit for every index below
  the bound of their loop, so no read is out of range.
\<close>

definition research_arrays_cover :: "research_limits \<Rightarrow> s6_research_data \<Rightarrow> bool" where
  "research_arrays_cover L s6 =
     (RIDE_TYPE_COUNT L \<le> 32 * length (researched_ride_types s6)
      \<and> MAX_RIDE_OBJECTS L \<le> 32 * length (researched_ride_entries s6)
      \<and> RCT2_MAX_RESEARCHED_SCENERY_ITEMS L \<le> 32 * length (researched_scenery_items s6))"

subsection \<open>Rides\<close>

text \<open>
  \<^verbatim>\<open>LocationXY8\<close>: the byte pair \<^verbatim>\<open>x\<close>, \<^verbatim>\<open>y\<close>, which the importer also reads
  as the 16-bit \<^verbatim>\<open>xy\<close> laid over the pair (a union declared outside the importer);
  on the little-endian layout of the format \<^verbatim>\<open>x\<close> is the low byte.
\<close>

record LocationXY8 =
  xy8_x :: u8
  xy8_y :: u8

definition xy8_xy :: "LocationXY8 \<Rightarrow> u16" where
  "xy8_xy l = (ucast (xy8_x l) OR push_bit 8 (ucast (xy8_y l)))"

text \<open>
  Modelled from the spec: the "undefined sentinel" of such a coordinate
  (\<^verbatim>\<open>RCT_XY8_UNDEFINED\<close>, declared outside the importer): the all-ones value, that is
  both bytes 0xFF; the general theorems hold whatever the value.
\<close>

definition RCT_XY8_UNDEFINED :: u16 where
  "RCT_XY8_UNDEFINED = 0xFFFF"

definition xy8_undefined :: LocationXY8 where
  "xy8_undefined = \<lparr>xy8_x = 0xFF, xy8_y = 0xFF\<rparr>"

text \<open>Modelled from the spec: \<^verbatim>\<open>SPRITE_INDEX_NULL\<close> and \<^verbatim>\<open>RIDE_TYPE_NULL\<close>, the
  all-ones markers of a sprite index and of a ride type (declared outside the importer).\<close>

definition SPRITE_INDEX_NULL :: u16 where
  "SPRITE_INDEX_NULL = 0xFFFF"

definition RIDE_TYPE_NULL :: u8 where
  "RIDE_TYPE_NULL = 0xFF"

text \<open>
  The sprite union, as far as \<^verbatim>\<open>ImportNumRiders\<close> reads it: the identifier of the
  generic view and two fields of the peep view. The enumerations are declared outside the
  importer; the datatypes name the members the importer tests and keep every other value.
\<close>

datatype sprite_identifier = SPRITE_IDENTIFIER_PEEP | SPRITE_IDENTIFIER_other u8

datatype peep_state = PEEP_STATE_ON_RIDE | PEEP_STATE_ENTERING_RIDE | PEEP_STATE_other u8

record rct_sprite =
  generic_sprite_identifier :: sprite_identifier
  peep_current_ride :: u8
  peep_state :: peep_state

text \<open>
  \<^verbatim>\<open>rct2_ride\<close>, the raw ride: the station arrays, the stored rider counter and some of
  the scalars. The members left out are copied one by one into the member of the same name of
  the destination; none of those statements reads \<^verbatim>\<open>num_riders\<close> or writes a station.
\<close>

record rct2_ride =
  r2_type :: u8
  r2_subtype :: u8
  r2_mode :: u8
  r2_colour_scheme_type :: u8
  r2_status :: u8
  r2_overall_view :: LocationXY8
  r2_station_starts :: "LocationXY8 list"
  r2_station_heights :: "u8 list"
  r2_station_length :: "u8 list"
  r2_station_depart :: "u8 list"
  r2_train_at_station :: "u8 list"
  r2_entrances :: "LocationXY8 list"
  r2_exits :: "LocationXY8 list"
  r2_last_peep_in_queue :: "u16 list"
  r2_length :: "u32 list"
  r2_time :: "u16 list"
  r2_queue_time :: "u16 list"
  r2_queue_length :: "u16 list"
  r2_depart_flags :: u8
  r2_num_stations :: u8
  r2_cur_num_customers :: u16
  r2_num_riders :: u16
  r2_music_tune_id :: u8

record TileCoordsXYZD =
  tc_x :: int
  tc_y :: int
  tc_z :: int
  tc_direction :: u8

text \<open>A destination station; an entrance or exit location that has been cleared is \<open>None\<close>.\<close>

record RideStation =
  st_Start :: LocationXY8
  st_Height :: u8
  st_Length :: u8
  st_Depart :: u8
  st_TrainAtStation :: u8
  st_Entrance :: "TileCoordsXYZD option"
  st_Exit :: "TileCoordsXYZD option"
  st_LastPeepInQueue :: u16
  st_SegmentLength :: u32
  st_SegmentTime :: u16
  st_QueueTime :: u16
  st_QueueLength :: u16

record Ride =
  ride_id :: u8
  ride_type :: u8
  ride_subtype :: u8
  ride_mode :: u8
  ride_colour_scheme_type :: u8
  ride_status :: u8
  ride_overall_view :: LocationXY8
  ride_stations :: "RideStation list"
  ride_depart_flags :: u8
  ride_num_stations :: u8
  ride_cur_num_customers :: u16
  ride_num_riders :: u16
  ride_music_tune_id :: u8

record ride_limits =
  RCT12_MAX_STATIONS_PER_RIDE :: nat
  MAX_STATIONS :: nat
  RCT12_MAX_RIDES_IN_PARK :: nat

text \<open>
  Modelled from the spec: the location setters of ride/Ride.cpp, which is outside the
  importer. \<^verbatim>\<open>ride_set_entrance_location\<close> and \<^verbatim>\<open>ride_set_exit_location\<close> store the
  location given at the station; \<^verbatim>\<open>ride_clear_entrance_location\<close> and
  \<^verbatim>\<open>ride_clear_exit_location\<close> clear it.
\<close>

definition ride_set_entrance_location :: "TileCoordsXYZD \<Rightarrow> RideStation \<Rightarrow> RideStation" where
  "ride_set_entrance_location location st = st\<lparr>st_Entrance := Some location\<rparr>"

definition ride_clear_entrance_location :: "RideStation \<Rightarrow> RideStation" where
  "ride_clear_entrance_location st = st\<lparr>st_Entrance := None\<rparr>"

definition ride_set_exit_location :: "TileCoordsXYZD \<Rightarrow> RideStation \<Rightarrow> RideStation" where
  "ride_set_exit_location location st = st\<lparr>st_Exit := Some location\<rparr>"

definition ride_clear_exit_location :: "RideStation \<Rightarrow> RideStation" where
  "ride_clear_exit_location st = st\<lparr>st_Exit := None\<rparr>"

text \<open>A station of the value-initialised ride (\<^verbatim>\<open>*dst = {}\<close>).\<close>

definition zero_station :: RideStation where
  "zero_station =
     \<lparr>st_Start = \<lparr>xy8_x = 0, xy8_y = 0\<rparr>, st_Height = 0, st_Length = 0, st_Depart = 0,
      st_TrainAtStation = 0,
      st_Entrance = Some \<lparr>tc_x = 0, tc_y = 0, tc_z = 0, tc_direction = 0\<rparr>,
      st_Exit = Some \<lparr>tc_x = 0, tc_y = 0, tc_z = 0, tc_direction = 0\<rparr>,
      st_LastPeepInQueue = 0, st_SegmentLength = 0, st_SegmentTime = 0, st_QueueTime = 0,
      st_QueueLength = 0\<rparr>"

text \<open>The body of the first station loop of \<^verbatim>\<open>ImportRide\<close> (lines 537-561), for station \<open>i\<close>.\<close>

definition import_station :: "rct2_ride \<Rightarrow> nat \<Rightarrow> RideStation" where
  "import_station src i =
     (let st1 = zero_station
                  \<lparr>st_Start := r2_station_starts src ! i,
                   st_Height := r2_station_heights src ! i,
                   st_Length := r2_station_length src ! i,
                   st_Depart := r2_station_depart src ! i,
                   st_TrainAtStation := r2_train_at_station src ! i\<rparr>;
          st2 = (if xy8_xy (r2_entrances src ! i) = RCT_XY8_UNDEFINED
                 then ride_clear_entrance_location st1
                 else ride_set_entrance_location
                        \<lparr>tc_x = uint (xy8_x (r2_entrances src ! i)),
                         tc_y = uint (xy8_y (r2_entrances src ! i)),
                         tc_z = uint (r2_station_heights src ! i), tc_direction = 0\<rparr> st1);
          st3 = (if xy8_xy (r2_exits src ! i) = RCT_XY8_UNDEFINED
                 then ride_clear_exit_location st2
                 else ride_set_exit_location
                        \<lparr>tc_x = uint (xy8_x (r2_entrances src ! i)),
                         tc_y = uint (xy8_y (r2_entrances src ! i)),
                         tc_z = uint (r2_station_heights src ! i), tc_direction = 0\<rparr> st2)
      in st3\<lparr>st_LastPeepInQueue := r2_last_peep_in_queue src ! i,
              st_SegmentLength := r2_length src ! i,
              st_SegmentTime := r2_time src ! i,
              st_QueueTime := r2_queue_time src ! i,
              st_QueueLength := r2_queue_length src ! i\<rparr>)"

text \<open>The body of the second station loop (lines 566-570): the stations the legacy format
  does not have.\<close>

definition unused_station :: RideStation where
  "unused_station =
     (ride_clear_exit_location
        (ride_clear_entrance_location
           (zero_station\<lparr>st_Start := xy8_undefined, st_TrainAtStation := 255\<rparr>)))
       \<lparr>st_LastPeepInQueue := SPRITE_INDEX_NULL\<rparr>"

text \<open>
  \<^verbatim>\<open>ImportNumRiders\<close>: a 16-bit counter over all of \<^verbatim>\<open>_s6.sprites\<close>; the peep view
  is read only when the identifier says the sprite is a peep.
\<close>

fun count_riders :: "rct_sprite list \<Rightarrow> u8 \<Rightarrow> u16 \<Rightarrow> u16" where
  "count_riders [] rideIndex numRiders = numRiders"
| "count_riders (sprite # sprites) rideIndex numRiders =
     count_riders sprites rideIndex
       (if generic_sprite_identifier sprite = SPRITE_IDENTIFIER_PEEP
        then (if peep_current_ride sprite = rideIndex
                 \<and> (peep_state sprite = PEEP_STATE_ON_RIDE
                      \<or> peep_state sprite = PEEP_STATE_ENTERING_RIDE)
              then numRiders + 1 else numRiders)
        else numRiders)"

definition ImportNumRiders :: "rct_sprite list \<Rightarrow> Ride \<Rightarrow> u8 \<Rightarrow> Ride" where
  "ImportNumRiders sprites dst rideIndex = dst\<lparr>ride_num_riders := count_riders sprites rideIndex 0\<rparr>"

text \<open>\<^verbatim>\<open>ImportRide\<close>, in the order of the source; \<open>sprites\<close> is \<^verbatim>\<open>_s6.sprites\<close>.\<close>

definition ImportRide :: "ride_limits \<Rightarrow> rct_sprite list \<Rightarrow> rct2_ride \<Rightarrow> u8 \<Rightarrow> Ride" where
  "ImportRide L sprites src rideIndex =
     (let dst1 = \<lparr>ride_id = rideIndex, ride_type = r2_type src, ride_subtype = r2_subtype src,
                  ride_mode = r2_mode src, ride_colour_scheme_type = r2_colour_scheme_type src,
                  ride_status = r2_status src, ride_overall_view = r2_overall_view src,
                  ride_stations =
                    map (import_station src) [0..<RCT12_MAX_STATIONS_PER_RIDE L]
                    @ map (\<lambda>i. unused_station) [RCT12_MAX_STATIONS_PER_RIDE L..<MAX_STATIONS L],
                  ride_depart_flags = r2_depart_flags src,
                  ride_num_stations = r2_num_stations src,
                  ride_cur_num_customers = r2_cur_num_customers src,
                  ride_num_riders = 0,
                  ride_music_tune_id = 0\<rparr>;
          dst2 = ImportNumRiders sprites dst1 rideIndex
      in dst2\<lparr>ride_music_tune_id := r2_music_tune_id src\<rparr>)"

text \<open>
  \<^verbatim>\<open>ImportRides\<close>: \<open>rides\<close> is \<^verbatim>\<open>_s6.rides\<close> and \<open>ride_list\<close> the destination
  array behind \<^verbatim>\<open>get_ride\<close>; the index is a byte.
\<close>

definition ImportRides :: "ride_limits \<Rightarrow> rct_sprite list \<Rightarrow> rct2_ride list \<Rightarrow> Ride list \<Rightarrow> Ride list" where
  "ImportRides L sprites rides ride_list =
     fold (\<lambda>index dsts.
             let src = rides ! index
             in if r2_type src \<noteq> RIDE_TYPE_NULL
                then dsts[index := ImportRide L sprites src (of_nat index)]
                else dsts)
          [0..<RCT12_MAX_RIDES_IN_PARK L] ride_list"

text \<open>The riders of a ride: the condition \<^verbatim>\<open>ImportNumRiders\<close> tests on a sprite.\<close>

definition is_rider_of :: "u8 \<Rightarrow> rct_sprite \<Rightarrow> bool" where
  "is_rider_of rideIndex sprite =
     (generic_sprite_identifier sprite = SPRITE_IDENTIFIER_PEEP
      \<and> peep_current_ride sprite = rideIndex
      \<and> (peep_state sprite = PEEP_STATE_ON_RIDE \<or> peep_state sprite = PEEP_STATE_ENTERING_RIDE))"

subsection \<open>Errors\<close>

text \<open>
  What \<^verbatim>\<open>LoadFromStream\<close> can raise: \<^verbatim>\<open>IOException\<close> (the checksum test),
  \<^verbatim>\<open>std::runtime_error\<close> (the header type test), \<^verbatim>\<open>UnsupportedRCTCFlagException\<close>
  (the classic flag), and a failure of the chunk reader or of the object repository while the
  stream is read.
\<close>

datatype import_error =
    IOException string
  | RuntimeError string
  | UnsupportedRCTCFlagException u8
  | SawyerChunkException string
  | ObjectRepositoryException string

subsection \<open>Tile elements\<close>

text \<open>
  The type tags. The decoder switches on the eight \<^verbatim>\<open>TILE_ELEMENT_TYPE_*\<close> values and
  \<^verbatim>\<open>ImportTileElements\<close> tests the three corrupt markers of
  \<^verbatim>\<open>RCT12TileElementType\<close>; the enumerations are declared outside the importer, so the
  datatype names these eleven values, takes them to be distinct, and keeps every other value
  \<^verbatim>\<open>GetType\<close> can return.
\<close>

datatype tile_element_type =
    TILE_ELEMENT_TYPE_SURFACE
  | TILE_ELEMENT_TYPE_PATH
  | TILE_ELEMENT_TYPE_TRACK
  | TILE_ELEMENT_TYPE_SMALL_SCENERY
  | TILE_ELEMENT_TYPE_ENTRANCE
  | TILE_ELEMENT_TYPE_WALL
  | TILE_ELEMENT_TYPE_LARGE_SCENERY
  | TILE_ELEMENT_TYPE_BANNER
  | Corrupt
  | EightCarsCorrupt14
  | EightCarsCorrupt15
  | other_tile_element_type u8

text \<open>The raw record: four named bytes and the four bytes the variants pack their fields in.\<close>

record RCT12TileElement =
  rct12_type :: u8
  rct12_flags :: u8
  rct12_base_height :: u8
  rct12_clearance_height :: u8
  rct12_pad_04 :: "u8 list"

text \<open>
  The raw variants, each as the values of the getters the decoder calls on it. The getters
  (rct12/RCT12.cpp) are outside the importer: what they extract from the packed bytes is a
  parameter, see \<open>rct12_accessors\<close>.
\<close>

record RCT12SurfaceElement =
  surface12_GetSlope :: nat
  surface12_GetSurfaceStyle :: nat
  surface12_GetEdgeStyle :: nat
  surface12_GetGrassLength :: nat
  surface12_GetOwnership :: nat
  surface12_GetParkFences :: nat
  surface12_GetWaterHeight :: nat
  surface12_HasTrackThatNeedsWater :: bool

record RCT12PathElement =
  path12_GetEntryIndex :: nat
  path12_GetQueueBannerDirection :: nat
  path12_IsSloped :: bool
  path12_GetSlopeDirection :: nat
  path12_GetRideIndex :: nat
  path12_GetStationIndex :: nat
  path12_IsWide :: bool
  path12_IsQueue :: bool
  path12_HasQueueBanner :: bool
  path12_GetEdges :: nat
  path12_GetCorners :: nat
  path12_GetAddition :: nat
  path12_AdditionIsGhost :: bool
  path12_GetAdditionStatus :: nat

record RCT12TrackElement =
  track12_GetTrackType :: nat
  track12_GetSequenceIndex :: nat
  track12_GetRideIndex :: nat
  track12_GetColourScheme :: nat
  track12_GetStationIndex :: nat
  track12_HasChain :: bool
  track12_HasCableLift :: bool
  track12_IsInverted :: bool
  track12_GetBrakeBoosterSpeed :: nat
  track12_HasGreenLight :: bool
  track12_GetSeatRotation :: nat
  track12_GetMazeEntry :: nat
  track12_GetPhotoTimeout :: nat

record RCT12SmallSceneryElement =
  small12_GetEntryIndex :: nat
  small12_GetAge :: nat
  small12_GetSceneryQuadrant :: nat
  small12_GetPrimaryColour :: nat
  small12_GetSecondaryColour :: nat
  small12_NeedsSupports :: bool

record RCT12EntranceElement =
  entrance12_GetEntranceType :: nat
  entrance12_GetRideIndex :: nat
  entrance12_GetStationIndex :: nat
  entrance12_GetSequenceIndex :: nat
  entrance12_GetPathType :: nat

record RCT12WallElement =
  wall12_GetEntryIndex :: nat
  wall12_GetSlope :: nat
  wall12_GetPrimaryColour :: nat
  wall12_GetSecondaryColour :: nat
  wall12_GetTertiaryColour :: nat
  wall12_GetAnimationFrame :: nat
  wall12_GetBannerIndex :: nat
  wall12_IsAcrossTrack :: bool
  wall12_AnimationIsBackwards :: bool

record RCT12LargeSceneryElement =
  large12_GetEntryIndex :: nat
  large12_GetSequenceIndex :: nat
  large12_GetPrimaryColour :: nat
  large12_GetSecondaryColour :: nat
  large12_GetBannerIndex :: nat

record RCT12BannerElement =
  banner12_GetIndex :: nat
  banner12_GetPosition :: nat
  banner12_GetAllowedEdges :: nat

text \<open>
  The accessors of the raw record: its tag, its direction and its eight views
  (\<^verbatim>\<open>src->AsSurface()\<close> and so on).
\<close>

record rct12_accessors =
  GetType :: "RCT12TileElement \<Rightarrow> tile_element_type"
  GetDirection :: "RCT12TileElement \<Rightarrow> u8"
  src_AsSurface :: "RCT12TileElement \<Rightarrow> RCT12SurfaceElement"
  src_AsPath :: "RCT12TileElement \<Rightarrow> RCT12PathElement"
  src_AsTrack :: "RCT12TileElement \<Rightarrow> RCT12TrackElement"
  src_AsSmallScenery :: "RCT12TileElement \<Rightarrow> RCT12SmallSceneryElement"
  src_AsEntrance :: "RCT12TileElement \<Rightarrow> RCT12EntranceElement"
  src_AsWall :: "RCT12TileElement \<Rightarrow> RCT12WallElement"
  src_AsLargeScenery :: "RCT12TileElement \<Rightarrow> RCT12LargeSceneryElement"
  src_AsBanner :: "RCT12TileElement \<Rightarrow> RCT12BannerElement"

text \<open>
  The destination variants: one named field for each setter the decoder calls
  (\<^verbatim>\<open>SetSlope\<close> writes \<open>surface_Slope\<close>, and so on).
\<close>

record SurfaceElement =
  surface_Slope :: nat
  surface_SurfaceStyle :: nat
  surface_EdgeStyle :: nat
  surface_GrassLength :: nat
  surface_Ownership :: nat
  surface_ParkFences :: nat
  surface_WaterHeight :: nat
  surface_HasTrackThatNeedsWater :: bool

record PathElement =
  path_PathEntryIndex :: nat
  path_QueueBannerDirection :: nat
  path_Sloped :: bool
  path_SlopeDirection :: nat
  path_RideIndex :: nat
  path_StationIndex :: nat
  path_Wide :: bool
  path_IsQueue :: bool
  path_HasQueueBanner :: bool
  path_Edges :: nat
  path_Corners :: nat
  path_Addition :: nat
  path_AdditionIsGhost :: bool
  path_AdditionStatus :: nat

record TrackElement =
  track_TrackType :: nat
  track_SequenceIndex :: nat
  track_RideIndex :: nat
  track_ColourScheme :: nat
  track_StationIndex :: nat
  track_HasChain :: bool
  track_HasCableLift :: bool
  track_Inverted :: bool
  track_BrakeBoosterSpeed :: nat
  track_HasGreenLight :: bool
  track_SeatRotation :: nat
  track_MazeEntry :: nat
  track_PhotoTimeout :: nat

record SmallSceneryElement =
  small_EntryIndex :: nat
  small_Age :: nat
  small_SceneryQuadrant :: nat
  small_PrimaryColour :: nat
  small_SecondaryColour :: nat
  small_NeedsSupports :: bool

record EntranceElement =
  entrance_EntranceType :: nat
  entrance_RideIndex :: nat
  entrance_StationIndex :: nat
  entrance_SequenceIndex :: nat
  entrance_PathType :: nat

record WallElement =
  wall_EntryIndex :: nat
  wall_Slope :: nat
  wall_PrimaryColour :: nat
  wall_SecondaryColour :: nat
  wall_TertiaryColour :: nat
  wall_AnimationFrame :: nat
  wall_BannerIndex :: nat
  wall_AcrossTrack :: bool
  wall_AnimationIsBackwards :: bool

record LargeSceneryElement =
  large_EntryIndex :: nat
  large_SequenceIndex :: nat
  large_PrimaryColour :: nat
  large_SecondaryColour :: nat
  large_BannerIndex :: nat

record BannerElement =
  banner_Index :: nat
  banner_Position :: nat
  banner_AllowedEdges :: nat

datatype tile_data =
    Surface SurfaceElement
  | Path PathElement
  | Track TrackElement
  | SmallScenery SmallSceneryElement
  | Entrance EntranceElement
  | Wall WallElement
  | LargeScenery LargeSceneryElement
  | Banner BannerElement
  | ClearedOnly

text \<open>
  The destination element: the tag \<^verbatim>\<open>ClearAs\<close> stores, the direction, the three common
  bytes and the fields of the variant. \<open>ClearedOnly\<close> is the state \<^verbatim>\<open>ClearAs\<close> leaves when
  no setter of a variant has been called.
\<close>

record TileElement =
  te_type :: tile_element_type
  te_direction :: u8
  te_flags :: u8
  te_base_height :: u8
  te_clearance_height :: u8
  te_data :: tile_data

text \<open>
  A slot of \<^verbatim>\<open>gTileElements\<close> after the import: the raw record copied byte for byte
  (\<^verbatim>\<open>memcpy\<close>), or a decoded element.
\<close>

datatype tile_slot = Verbatim RCT12TileElement | Decoded TileElement

text \<open>
  \<^verbatim>\<open>ImportTileElement\<close>. The common part is written first (\<^verbatim>\<open>ClearAs\<close>,
  \<^verbatim>\<open>SetDirection\<close>, the three bytes), then the switch on the tag. \<^verbatim>\<open>ClearAs\<close>
  leaves every field of the variant zero, so the conditional \<^verbatim>\<open>SetNeedsSupports\<close>
  stores the flag of the source.

  The function returns nothing and raises nothing. Its default branch holds only
  \<^verbatim>\<open>assert(false)\<close>: compiled with \<^verbatim>\<open>NDEBUG\<close> the statement is empty and the element
  keeps what the common part wrote, which is how the branch is modelled; compiled with
  assertions the process is aborted there. The branch is not reached when the tag is one of
  the eight of the switch (\<open>supported_type\<close> below).
\<close>

definition ImportTileElement :: "rct12_accessors \<Rightarrow> RCT12TileElement \<Rightarrow> TileElement" where
  "ImportTileElement A src =
     (let tileElementType = GetType A src;
          dst = (\<lambda>d. \<lparr>te_type = tileElementType, te_direction = GetDirection A src,
                       te_flags = rct12_flags src, te_base_height = rct12_base_height src,
                       te_clearance_height = rct12_clearance_height src, te_data = d\<rparr>)
      in case tileElementType of
           TILE_ELEMENT_TYPE_SURFACE \<Rightarrow>
             (let src2 = src_AsSurface A src
              in dst (Surface
                   \<lparr>surface_Slope = surface12_GetSlope src2,
                    surface_SurfaceStyle = surface12_GetSurfaceStyle src2,
                    surface_EdgeStyle = surface12_GetEdgeStyle src2,
                    surface_GrassLength = surface12_GetGrassLength src2,
                    surface_Ownership = surface12_GetOwnership src2,
                    surface_ParkFences = surface12_GetParkFences src2,
                    surface_WaterHeight = surface12_GetWaterHeight src2,
                    surface_HasTrackThatNeedsWater = surface12_HasTrackThatNeedsWater src2\<rparr>))
         | TILE_ELEMENT_TYPE_PATH \<Rightarrow>
             (let src2 = src_AsPath A src
              in dst (Path
                   \<lparr>path_PathEntryIndex = path12_GetEntryIndex src2,
                    path_QueueBannerDirection = path12_GetQueueBannerDirection src2,
                    path_Sloped = path12_IsSloped src2,
                    path_SlopeDirection = path12_GetSlopeDirection src2,
                    path_RideIndex = path12_GetRideIndex src2,
                    path_StationIndex = path12_GetStationIndex src2,
                    path_Wide = path12_IsWide src2,
                    path_IsQueue = path12_IsQueue src2,
                    path_HasQueueBanner = path12_HasQueueBanner src2,
                    path_Edges = path12_GetEdges src2,
                    path_Corners = path12_GetCorners src2,
                    path_Addition = path12_GetAddition src2,
                    path_AdditionIsGhost = path12_AdditionIsGhost src2,
                    path_AdditionStatus = path12_GetAdditionStatus src2\<rparr>))
         | TILE_ELEMENT_TYPE_TRACK \<Rightarrow>
             (let src2 = src_AsTrack A src
              in dst (Track
                   \<lparr>track_TrackType = track12_GetTrackType src2,
                    track_SequenceIndex = track12_GetSequenceIndex src2,
                    track_RideIndex = track12_GetRideIndex src2,
                    track_ColourScheme = track12_GetColourScheme src2,
                    track_StationIndex = track12_GetStationIndex src2,
                    track_HasChain = track12_HasChain src2,
                    track_HasCableLift = track12_HasCableLift src2,
                    track_Inverted = track12_IsInverted src2,
                    track_BrakeBoosterSpeed = track12_GetBrakeBoosterSpeed src2,
                    track_HasGreenLight = track12_HasGreenLight src2,
                    track_SeatRotation = track12_GetSeatRotation src2,
                    track_MazeEntry = track12_GetMazeEntry src2,
                    track_PhotoTimeout = track12_GetPhotoTimeout src2\<rparr>))
         | TILE_ELEMENT_TYPE_SMALL_SCENERY \<Rightarrow>
             (let src2 = src_AsSmallScenery A src
              in dst (SmallScenery
                   \<lparr>small_EntryIndex = small12_GetEntryIndex src2,
                    small_Age = small12_GetAge src2,
                    small_SceneryQuadrant = small12_GetSceneryQuadrant src2,
                    small_PrimaryColour = small12_GetPrimaryColour src2,
                    small_SecondaryColour = small12_GetSecondaryColour src2,
                    small_NeedsSupports = (if small12_NeedsSupports src2 then True else False)\<rparr>))
         | TILE_ELEMENT_TYPE_ENTRANCE \<Rightarrow>
             (let src2 = src_AsEntrance A src
              in dst (Entrance
                   \<lparr>entrance_EntranceType = entrance12_GetEntranceType src2,
                    entrance_RideIndex = entrance12_GetRideIndex src2,
                    entrance_StationIndex = entrance12_GetStationIndex src2,
                    entrance_SequenceIndex = entrance12_GetSequenceIndex src2,
                    entrance_PathType = entrance12_GetPathType src2\<rparr>))
         | TILE_ELEMENT_TYPE_WALL \<Rightarrow>
             (let src2 = src_AsWall A src
              in dst (Wall
                   \<lparr>wall_EntryIndex = wall12_GetEntryIndex src2,
                    wall_Slope = wall12_GetSlope src2,
                    wall_PrimaryColour = wall12_GetPrimaryColour src2,
                    wall_SecondaryColour = wall12_GetSecondaryColour src2,
                    wall_TertiaryColour = wall12_GetTertiaryColour src2,
                    wall_AnimationFrame = wall12_GetAnimationFrame src2,
                    wall_BannerIndex = wall12_GetBannerIndex src2,
                    wall_AcrossTrack = wall12_IsAcrossTrack src2,
                    wall_AnimationIsBackwards = wall12_AnimationIsBackwards src2\<rparr>))
         | TILE_ELEMENT_TYPE_LARGE_SCENERY \<Rightarrow>
             (let src2 = src_AsLargeScenery A src
              in dst (LargeScenery
                   \<lparr>large_EntryIndex = large12_GetEntryIndex src2,
                    large_SequenceIndex = large12_GetSequenceIndex src2,
                    large_PrimaryColour = large12_GetPrimaryColour src2,
                    large_SecondaryColour = large12_GetSecondaryColour src2,
                    large_BannerIndex = large12_GetBannerIndex src2\<rparr>))
         | TILE_ELEMENT_TYPE_BANNER \<Rightarrow>
             (let src2 = src_AsBanner A src
              in dst (Banner
                   \<lparr>banner_Index = banner12_GetIndex src2,
                    banner_Position = banner12_GetPosition src2,
                    banner_AllowedEdges = banner12_GetAllowedEdges src2\<rparr>))
         | _ \<Rightarrow> dst ClearedOnly)"

text \<open>
  The body of the loop of \<^verbatim>\<open>ImportTileElements\<close> (lines 865-881), for one record: what
  is written into the slot \<^verbatim>\<open>gTileElements[index]\<close>.
\<close>

definition ImportTileElements_slot :: "rct12_accessors \<Rightarrow> RCT12TileElement \<Rightarrow> tile_slot" where
  "ImportTileElements_slot A src =
     (if rct12_base_height src = 0xFF
      then Verbatim src
      else
        (let tileElementType = GetType A src
         in if tileElementType = Corrupt
               \<or> tileElementType = EightCarsCorrupt14
               \<or> tileElementType = EightCarsCorrupt15
            then Verbatim src
            else Decoded (ImportTileElement A src)))"

text \<open>
  \<^verbatim>\<open>ImportTileElements\<close>: every index below \<^verbatim>\<open>RCT2_MAX_TILE_ELEMENTS\<close> (a header
  constant, here \<open>cap\<close>) of \<^verbatim>\<open>_s6.tile_elements\<close>, an array of that many records, in
  increasing order and with no early exit. The result lists the slots written, slot \<open>index\<close>
  being \<^verbatim>\<open>gTileElements[index]\<close>.
\<close>

definition ImportTileElements :: "rct12_accessors \<Rightarrow> nat \<Rightarrow> RCT12TileElement list \<Rightarrow> tile_slot list" where
  "ImportTileElements A cap tile_elements =
     map (\<lambda>index. ImportTileElements_slot A (tile_elements ! index)) [0..<cap]"

text \<open>The tags the decoder has a case for, and the records that are copied verbatim.\<close>

definition supported_type :: "tile_element_type \<Rightarrow> bool" where
  "supported_type t =
     (t = TILE_ELEMENT_TYPE_SURFACE \<or> t = TILE_ELEMENT_TYPE_PATH \<or> t = TILE_ELEMENT_TYPE_TRACK
      \<or> t = TILE_ELEMENT_TYPE_SMALL_SCENERY \<or> t = TILE_ELEMENT_TYPE_ENTRANCE
      \<or> t = TILE_ELEMENT_TYPE_WALL \<or> t = TILE_ELEMENT_TYPE_LARGE_SCENERY
      \<or> t = TILE_ELEMENT_TYPE_BANNER)"

definition copied_verbatim :: "rct12_accessors \<Rightarrow> RCT12TileElement \<Rightarrow> bool" where
  "copied_verbatim A src =
     (rct12_base_height src = 0xFF
      \<or> GetType A src = Corrupt \<or> GetType A src = EightCarsCorrupt14
      \<or> GetType A src = EightCarsCorrupt15)"

text \<open>
  Two accessor instances agree on a record for the decoder when they give it the same tag and
  direction and the same view of the variant its tag selects; the other seven views are free.
\<close>

definition same_selected_view :: "rct12_accessors \<Rightarrow> rct12_accessors \<Rightarrow> RCT12TileElement \<Rightarrow> bool" where
  "same_selected_view A B src =
     (GetType B src = GetType A src \<and> GetDirection B src = GetDirection A src
      \<and> (case GetType A src of
            TILE_ELEMENT_TYPE_SURFACE \<Rightarrow> src_AsSurface B src = src_AsSurface A src
          | TILE_ELEMENT_TYPE_PATH \<Rightarrow> src_AsPath B src = src_AsPath A src
          | TILE_ELEMENT_TYPE_TRACK \<Rightarrow> src_AsTrack B src = src_AsTrack A src
          | TILE_ELEMENT_TYPE_SMALL_SCENERY \<Rightarrow> src_AsSmallScenery B src = src_AsSmallScenery A src
          | TILE_ELEMENT_TYPE_ENTRANCE \<Rightarrow> src_AsEntrance B src = src_AsEntrance A src
          | TILE_ELEMENT_TYPE_WALL \<Rightarrow> src_AsWall B src = src_AsWall A src
          | TILE_ELEMENT_TYPE_LARGE_SCENERY \<Rightarrow> src_AsLargeScenery B src = src_AsLargeScenery A src
          | TILE_ELEMENT_TYPE_BANNER \<Rightarrow> src_AsBanner B src = src_AsBanner A src
          | _ \<Rightarrow> True))"

subsection \<open>Loading from the stream\<close>

text \<open>
  The header, as far as \<^verbatim>\<open>LoadFromStream\<close> reads it. The type enumeration is declared
  outside the importer: the datatype names its two members and keeps every other byte.
\<close>

datatype s6_type = S6_TYPE_SAVEDGAME | S6_TYPE_SCENARIO | S6_TYPE_other u8

record rct_s6_header =
  hdr_type :: s6_type
  hdr_classic_flag :: u8
  hdr_num_packed_objects :: u16

text \<open>The members of \<^verbatim>\<open>_s6\<close> at which \<^verbatim>\<open>LoadFromStream\<close> has a chunk written.\<close>

datatype s6_member =
    s6_header
  | s6_info
  | s6_objects
  | s6_elapsed_months
  | s6_tile_elements
  | s6_next_free_tile_element_pointer_index
  | s6_guests_in_park
  | s6_last_guests_in_park
  | s6_park_rating
  | s6_active_research_types
  | s6_current_expenditure
  | s6_park_value
  | s6_completed_company_value

text \<open>
  What the importer uses and does not define: the checksum test of
  \<^verbatim>\<open>SawyerEncoding\<close>, \<^verbatim>\<open>SawyerChunkReader::ReadChunk\<close> (the stream and the expected
  size in, the chunk and the advanced stream out, or a failure), the object repository's
  \<^verbatim>\<open>ExportPackedObject\<close>, the layout of the header inside its chunk, and the four
  \<^verbatim>\<open>sizeof\<close> values. \<open>'s\<close> is the stream, \<open>'c\<close> the content of a chunk.
\<close>

record ('s, 'c) stream_ops =
  ValidateChecksum :: "'s \<Rightarrow> bool"
  ReadChunk :: "'s \<Rightarrow> nat \<Rightarrow> string + ('c \<times> 's)"
  ExportPackedObject :: "'s \<Rightarrow> string + 's"
  header_of :: "'c \<Rightarrow> rct_s6_header"
  sizeof_header :: nat
  sizeof_info :: nat
  sizeof_objects :: nat
  sizeof_tile_elements :: nat

text \<open>
  The state a load works on: the stream, and \<^verbatim>\<open>_s6\<close> as the chunks written into it so
  far, oldest first, each with the member it starts at and the size asked for. An exception
  leaves the state as it was when raised.
\<close>

record ('s, 'c) load_state =
  ls_stream :: 's
  ls_chunks :: "(s6_member \<times> nat \<times> 'c) list"

type_synonym ('s, 'c, 'a) load = "('s, 'c) load_state \<Rightarrow> (import_error + 'a) \<times> ('s, 'c) load_state"

definition ret :: "'a \<Rightarrow> ('s, 'c, 'a) load" where
  "ret x st = (Inr x, st)"

definition throw :: "import_error \<Rightarrow> ('s, 'c, 'a) load" where
  "throw e st = (Inl e, st)"

definition bind :: "('s, 'c, 'a) load \<Rightarrow> ('a \<Rightarrow> ('s, 'c, 'b) load) \<Rightarrow> ('s, 'c, 'b) load" where
  "bind m f st = (case m st of (Inl e, st1) \<Rightarrow> (Inl e, st1) | (Inr x, st1) \<Rightarrow> f x st1)"

text \<open>\<^verbatim>\<open>chunkReader.ReadChunk(&_s6.member, size)\<close>.\<close>

definition chunkReader_ReadChunk :: "('s, 'c) stream_ops \<Rightarrow> s6_member \<Rightarrow> nat \<Rightarrow> ('s, 'c, 'c) load" where
  "chunkReader_ReadChunk ops member expected st =
     (case ReadChunk ops (ls_stream st) expected of
        Inl msg \<Rightarrow> (Inl (SawyerChunkException msg), st)
      | Inr (chunk, stream1) \<Rightarrow>
          (Inr chunk, st\<lparr>ls_stream := stream1, ls_chunks := ls_chunks st @ [(member, expected, chunk)]\<rparr>))"

text \<open>\<^verbatim>\<open>_objectRepository.ExportPackedObject(stream)\<close>, and the loop that calls it
  \<^verbatim>\<open>num_packed_objects\<close> times.\<close>

definition objectRepository_ExportPackedObject :: "('s, 'c) stream_ops \<Rightarrow> ('s, 'c, unit) load" where
  "objectRepository_ExportPackedObject ops st =
     (case ExportPackedObject ops (ls_stream st) of
        Inl msg \<Rightarrow> (Inl (ObjectRepositoryException msg), st)
      | Inr stream1 \<Rightarrow> (Inr (), st\<lparr>ls_stream := stream1\<rparr>))"

fun export_packed_objects :: "('s, 'c) stream_ops \<Rightarrow> nat \<Rightarrow> ('s, 'c, unit) load" where
  "export_packed_objects ops 0 = ret ()"
| "export_packed_objects ops (Suc n) =
     bind (objectRepository_ExportPackedObject ops) (\<lambda>_. export_packed_objects ops n)"

text \<open>
  \<^verbatim>\<open>LoadFromStream\<close> after its checksum test (lines 113-169): the header, the type
  test (and the scenario-info chunk), the classic flag, the packed objects, and the chunk
  sequence of the layout. The result is the chunk read into \<^verbatim>\<open>_s6.objects\<close>, from
  which the \<^verbatim>\<open>ParkLoadResult\<close> is built.
\<close>

definition LoadFromStream_chunks :: "('s, 'c) stream_ops \<Rightarrow> bool \<Rightarrow> ('s, 'c, 'c) load" where
  "LoadFromStream_chunks ops isScenario =
     bind (chunkReader_ReadChunk ops s6_header (sizeof_header ops)) (\<lambda>chunk.
       let header = header_of ops chunk in
       bind (if isScenario
             then (if hdr_type header \<noteq> S6_TYPE_SCENARIO
                   then throw (RuntimeError ''Park is not a scenario.'')
                   else bind (chunkReader_ReadChunk ops s6_info (sizeof_info ops)) (\<lambda>_. ret ()))
             else (if hdr_type header \<noteq> S6_TYPE_SAVEDGAME
                   then throw (RuntimeError ''Park is not a saved game.'')
                   else ret ())) (\<lambda>_.
       if hdr_classic_flag header = 0xf
       then throw (UnsupportedRCTCFlagException (hdr_classic_flag header))
       else
         bind (export_packed_objects ops (unat (hdr_num_packed_objects header))) (\<lambda>_.
         if isScenario
         then
           bind (chunkReader_ReadChunk ops s6_objects (sizeof_objects ops)) (\<lambda>objects.
           bind (chunkReader_ReadChunk ops s6_elapsed_months 16) (\<lambda>_.
           bind (chunkReader_ReadChunk ops s6_tile_elements (sizeof_tile_elements ops)) (\<lambda>_.
           bind (chunkReader_ReadChunk ops s6_next_free_tile_element_pointer_index 2560076) (\<lambda>_.
           bind (chunkReader_ReadChunk ops s6_guests_in_park 4) (\<lambda>_.
           bind (chunkReader_ReadChunk ops s6_last_guests_in_park 8) (\<lambda>_.
           bind (chunkReader_ReadChunk ops s6_park_rating 2) (\<lambda>_.
           bind (chunkReader_ReadChunk ops s6_active_research_types 1082) (\<lambda>_.
           bind (chunkReader_ReadChunk ops s6_current_expenditure 16) (\<lambda>_.
           bind (chunkReader_ReadChunk ops s6_park_value 4) (\<lambda>_.
           bind (chunkReader_ReadChunk ops s6_completed_company_value 483816) (\<lambda>_.
           ret objects)))))))))))
         else
           bind (chunkReader_ReadChunk ops s6_objects (sizeof_objects ops)) (\<lambda>objects.
           bind (chunkReader_ReadChunk ops s6_elapsed_months 16) (\<lambda>_.
           bind (chunkReader_ReadChunk ops s6_tile_elements (sizeof_tile_elements ops)) (\<lambda>_.
           bind (chunkReader_ReadChunk ops s6_next_free_tile_element_pointer_index 3048816) (\<lambda>_.
           ret objects)))))))"

text \<open>
  \<^verbatim>\<open>LoadFromStream\<close>: the checksum test (lines 108-111), then the rest. \<open>allow\<close> is
  \<^verbatim>\<open>gConfigGeneral.allow_loading_with_incorrect_checksum\<close>.
\<close>

definition LoadFromStream :: "('s, 'c) stream_ops \<Rightarrow> bool \<Rightarrow> bool \<Rightarrow> ('s, 'c, 'c) load" where
  "LoadFromStream ops allow isScenario st =
     (if isScenario \<and> \<not> allow \<and> \<not> ValidateChecksum ops (ls_stream st)
      then throw (IOException ''Invalid checksum.'') st
      else LoadFromStream_chunks ops isScenario st)"

text \<open>The chunk reads a state records: member and size, in the order made.\<close>

definition chunk_reads :: "('s, 'c) load_state \<Rightarrow> (s6_member \<times> nat) list" where
  "chunk_reads st = map (\<lambda>(member, expected, chunk). (member, expected)) (ls_chunks st)"

text \<open>
  The relation between the two chunk sequences that the specification words as "differ in
  exactly two chunk sizes and in whether a scenario-info block is present": with the
  scenario-info read set aside, the same members in the same order, and exactly two positions
  whose sizes differ.
\<close>

definition differ_in_two_sizes_and_info :: "(s6_member \<times> nat) list \<Rightarrow> (s6_member \<times> nat) list \<Rightarrow> bool" where
  "differ_in_two_sizes_and_info scenario saved =
     (let scenario1 = filter (\<lambda>read. fst read \<noteq> s6_info) scenario
      in map fst scenario1 = map fst saved
         \<and> length (filter (\<lambda>(a, b). snd a \<noteq> snd b) (zip scenario1 saved)) = 2)"

text \<open>The spec's \<^verbatim>\<open>UnsupportedFormatError\<close> is the importer's
  \<^verbatim>\<open>UnsupportedRCTCFlagException\<close>.\<close>

definition raises_UnsupportedFormatError :: "import_error + 'a \<Rightarrow> bool" where
  "raises_UnsupportedFormatError r =
     (case r of Inl (UnsupportedRCTCFlagException flag) \<Rightarrow> True | _ \<Rightarrow> False)"

definition raises_checksum_error :: "import_error + 'a \<Rightarrow> bool" where
  "raises_checksum_error r = (case r of Inl (IOException msg) \<Rightarrow> True | _ \<Rightarrow> False)"

text \<open>Two properties of a load step: it raises no \<^verbatim>\<open>IOException\<close>; when it succeeds
  it has appended exactly the reads \<open>xs\<close>.\<close>

definition no_checksum_error :: "('s, 'c, 'a) load \<Rightarrow> bool" where
  "no_checksum_error m = (\<forall>st. \<not> raises_checksum_error (fst (m st)))"

definition appends_reads :: "('s, 'c, 'a) load \<Rightarrow> (s6_member \<times> nat) list \<Rightarrow> bool" where
  "appends_reads m xs =
     (\<forall>st r st1. m st = (Inr r, st1) \<longrightarrow> chunk_reads st1 = chunk_reads st @ xs)"

text \<open>The chunk sequences of the two layouts, as a successful load reads them.\<close>

definition scenario_layout :: "('s, 'c) stream_ops \<Rightarrow> (s6_member \<times> nat) list" where
  "scenario_layout ops =
     [(s6_header, sizeof_header ops), (s6_info, sizeof_info ops),
      (s6_objects, sizeof_objects ops), (s6_elapsed_months, 16),
      (s6_tile_elements, sizeof_tile_elements ops),
      (s6_next_free_tile_element_pointer_index, 2560076),
      (s6_guests_in_park, 4), (s6_last_guests_in_park, 8), (s6_park_rating, 2),
      (s6_active_research_types, 1082), (s6_current_expenditure, 16), (s6_park_value, 4),
      (s6_completed_company_value, 483816)]"

definition savedgame_layout :: "('s, 'c) stream_ops \<Rightarrow> (s6_member \<times> nat) list" where
  "savedgame_layout ops =
     [(s6_header, sizeof_header ops),
      (s6_objects, sizeof_objects ops), (s6_elapsed_months, 16),
      (s6_tile_elements, sizeof_tile_elements ops),
      (s6_next_free_tile_element_pointer_index, 3048816)]"

subsection \<open>Filename-keyed corrections\<close>

text \<open>
  The last statement of \<^verbatim>\<open>Import\<close> (lines 483-496). \<^verbatim>\<open>FixLandOwnershipTilesWithOwnership\<close>
  and \<^verbatim>\<open>OWNERSHIP_OWNED\<close> are declared outside the importer and are parameters; \<open>world\<close> is
  the imported map the correction works on.
\<close>

definition Import_fix_land_ownership ::
  "((nat \<times> nat) list \<Rightarrow> 'o \<Rightarrow> 'w \<Rightarrow> 'w) \<Rightarrow> 'o \<Rightarrow> string \<Rightarrow> 'w \<Rightarrow> 'w" where
  "Import_fix_land_ownership FixLandOwnershipTilesWithOwnership OWNERSHIP_OWNED filename world =
     (if String_Equals filename ''Europe - European Cultural Festival.SC6''
      then FixLandOwnershipTilesWithOwnership
             [(67, 94), (68, 94), (69, 94),
              (58, 24), (58, 25), (58, 26), (58, 27), (58, 28), (58, 29), (58, 30), (58, 31),
              (58, 32),
              (26, 44), (26, 45),
              (32, 79), (32, 80), (32, 81)]
             OWNERSHIP_OWNED world
      else world)"

text \<open>The filenames that have a correction: five in \<^verbatim>\<open>ImportPeepSpawns\<close>, one in
  \<^verbatim>\<open>Import\<close>.\<close>

definition registered_filenames :: "string list" where
  "registered_filenames =
     [''WW South America - Rio Carnival.SC6'', ''South America - Rio Carnival.SC6'',
      ''Great Wall of China Tourism Enhancement.SC6'',
      ''Asia - Great Wall of China Tourism Enhancement.SC6'',
      ''Amity Airfield.SC6'',
      ''Europe - European Cultural Festival.SC6'']"

subsection \<open>Sample inputs\<close>

text \<open>Concrete inputs on which the theorems below are exercised.\<close>

definition sample_research_limits :: research_limits where
  "sample_research_limits =
     \<lparr>RIDE_TYPE_COUNT = 91, MAX_RIDE_OBJECTS = 128, RCT2_MAX_RESEARCHED_SCENERY_ITEMS = 1792\<rparr>"

definition only_bit_5 :: s6_research_data where
  "only_bit_5 =
     \<lparr>researched_ride_types = [32, 0, 0, 0, 0, 0, 0, 0],
      researched_ride_entries = [32, 0, 0, 0, 0, 0, 0, 0],
      researched_scenery_items = 32 # replicate 55 0\<rparr>"

definition sample_ride_limits :: ride_limits where
  "sample_ride_limits =
     \<lparr>RCT12_MAX_STATIONS_PER_RIDE = 4, MAX_STATIONS = 4, RCT12_MAX_RIDES_IN_PARK = 255\<rparr>"

definition sample_ride :: rct2_ride where
  "sample_ride =
     \<lparr>r2_type = 52, r2_subtype = 3, r2_mode = 0, r2_colour_scheme_type = 0, r2_status = 1,
      r2_overall_view = \<lparr>xy8_x = 10, xy8_y = 20\<rparr>,
      r2_station_starts =
        [\<lparr>xy8_x = 10, xy8_y = 21\<rparr>, xy8_undefined, xy8_undefined, xy8_undefined],
      r2_station_heights = [7, 0, 0, 0],
      r2_station_length = [5, 0, 0, 0],
      r2_station_depart = [0, 0, 0, 0],
      r2_train_at_station = [255, 255, 255, 255],
      r2_entrances =
        [\<lparr>xy8_x = 10, xy8_y = 20\<rparr>, xy8_undefined, xy8_undefined, xy8_undefined],
      r2_exits =
        [\<lparr>xy8_x = 11, xy8_y = 22\<rparr>, xy8_undefined, xy8_undefined, xy8_undefined],
      r2_last_peep_in_queue = [0xFFFF, 0xFFFF, 0xFFFF, 0xFFFF],
      r2_length = [0, 0, 0, 0],
      r2_time = [0, 0, 0, 0],
      r2_queue_time = [0, 0, 0, 0],
      r2_queue_length = [0, 0, 0, 0],
      r2_depart_flags = 0, r2_num_stations = 1, r2_cur_num_customers = 0,
      r2_num_riders = 99, r2_music_tune_id = 0\<rparr>"

definition other_exits :: "LocationXY8 list" where
  "other_exits = [\<lparr>xy8_x = 50, xy8_y = 60\<rparr>, xy8_undefined, xy8_undefined, xy8_undefined]"

definition sample_sprites :: "rct_sprite list" where
  "sample_sprites =
     [\<lparr>generic_sprite_identifier = SPRITE_IDENTIFIER_PEEP, peep_current_ride = 3,
       peep_state = PEEP_STATE_ON_RIDE\<rparr>,
      \<lparr>generic_sprite_identifier = SPRITE_IDENTIFIER_PEEP, peep_current_ride = 3,
       peep_state = PEEP_STATE_ENTERING_RIDE\<rparr>,
      \<lparr>generic_sprite_identifier = SPRITE_IDENTIFIER_PEEP, peep_current_ride = 3,
       peep_state = PEEP_STATE_other 5\<rparr>,
      \<lparr>generic_sprite_identifier = SPRITE_IDENTIFIER_PEEP, peep_current_ride = 4,
       peep_state = PEEP_STATE_ON_RIDE\<rparr>,
      \<lparr>generic_sprite_identifier = SPRITE_IDENTIFIER_other 0, peep_current_ride = 3,
       peep_state = PEEP_STATE_ON_RIDE\<rparr>]"

text \<open>
  A sample instance of the accessors, placing the fields in the type byte and the four
  packed bytes the way the RCT2 format does for a surface, and by simple masks and shifts for
  the other variants.
\<close>

definition sample_GetType :: "RCT12TileElement \<Rightarrow> tile_element_type" where
  "sample_GetType e =
     (let t = rct12_type e AND 0x3C
      in if t = 0x00 then TILE_ELEMENT_TYPE_SURFACE
         else if t = 0x04 then TILE_ELEMENT_TYPE_PATH
         else if t = 0x08 then TILE_ELEMENT_TYPE_TRACK
         else if t = 0x0C then TILE_ELEMENT_TYPE_SMALL_SCENERY
         else if t = 0x10 then TILE_ELEMENT_TYPE_ENTRANCE
         else if t = 0x14 then TILE_ELEMENT_TYPE_WALL
         else if t = 0x18 then TILE_ELEMENT_TYPE_LARGE_SCENERY
         else if t = 0x1C then TILE_ELEMENT_TYPE_BANNER
         else if t = 0x20 then Corrupt
         else if t = 0x38 then EightCarsCorrupt14
         else if t = 0x3C then EightCarsCorrupt15
         else other_tile_element_type t)"

definition packed :: "RCT12TileElement \<Rightarrow> nat \<Rightarrow> u8" where
  "packed e k = rct12_pad_04 e ! k"

definition sample_accessors :: rct12_accessors where
  "sample_accessors =
     \<lparr>GetType = sample_GetType,
      GetDirection = (\<lambda>e. rct12_type e AND 0x03),
      src_AsSurface = (\<lambda>e.
        \<lparr>surface12_GetSlope = unat (packed e 0 AND 0x1F),
         surface12_GetSurfaceStyle =
           unat (drop_bit 5 (packed e 1) OR push_bit 3 (rct12_type e AND 1)),
         surface12_GetEdgeStyle =
           unat (drop_bit 5 (packed e 0) OR drop_bit 4 (rct12_type e AND 0x80)),
         surface12_GetGrassLength = unat (packed e 2),
         surface12_GetOwnership = unat (packed e 3 AND 0xF0),
         surface12_GetParkFences = unat (packed e 3 AND 0x0F),
         surface12_GetWaterHeight = unat (packed e 1 AND 0x1F),
         surface12_HasTrackThatNeedsWater = bit (rct12_type e) 6\<rparr>),
      src_AsPath = (\<lambda>e.
        \<lparr>path12_GetEntryIndex = unat (drop_bit 4 (packed e 0)),
         path12_GetQueueBannerDirection = unat (drop_bit 6 (rct12_type e)),
         path12_IsSloped = bit (packed e 0) 2,
         path12_GetSlopeDirection = unat (packed e 0 AND 0x03),
         path12_GetRideIndex = unat (packed e 3),
         path12_GetStationIndex = unat (drop_bit 4 (packed e 1) AND 0x07),
         path12_IsWide = bit (rct12_type e) 1,
         path12_IsQueue = bit (rct12_type e) 0,
         path12_HasQueueBanner = bit (packed e 0) 3,
         path12_GetEdges = unat (packed e 2 AND 0x0F),
         path12_GetCorners = unat (drop_bit 4 (packed e 2)),
         path12_GetAddition = unat (packed e 1 AND 0x0F),
         path12_AdditionIsGhost = bit (packed e 1) 7,
         path12_GetAdditionStatus = unat (packed e 3)\<rparr>),
      src_AsTrack = (\<lambda>e.
        \<lparr>track12_GetTrackType = unat (packed e 0),
         track12_GetSequenceIndex = unat (packed e 1 AND 0x0F),
         track12_GetRideIndex = unat (packed e 3),
         track12_GetColourScheme = unat (packed e 2 AND 0x03),
         track12_GetStationIndex = unat (drop_bit 4 (packed e 1) AND 0x07),
         track12_HasChain = bit (rct12_type e) 7,
         track12_HasCableLift = bit (packed e 2) 3,
         track12_IsInverted = bit (packed e 2) 2,
         track12_GetBrakeBoosterSpeed = unat (push_bit 1 (drop_bit 4 (packed e 1))),
         track12_HasGreenLight = bit (packed e 1) 7,
         track12_GetSeatRotation = unat (drop_bit 4 (packed e 2)),
         track12_GetMazeEntry = unat (packed e 1) + 256 * unat (packed e 2),
         track12_GetPhotoTimeout = unat (drop_bit 4 (packed e 1))\<rparr>),
      src_AsSmallScenery = (\<lambda>e.
        \<lparr>small12_GetEntryIndex = unat (packed e 0),
         small12_GetAge = unat (packed e 1),
         small12_GetSceneryQuadrant = unat (drop_bit 6 (rct12_type e)),
         small12_GetPrimaryColour = unat (packed e 2 AND 0x1F),
         small12_GetSecondaryColour = unat (packed e 3 AND 0x1F),
         small12_NeedsSupports = bit (packed e 2) 5\<rparr>),
      src_AsEntrance = (\<lambda>e.
        \<lparr>entrance12_GetEntranceType = unat (packed e 0),
         entrance12_GetRideIndex = unat (packed e 3),
         entrance12_GetStationIndex = unat (drop_bit 4 (packed e 1) AND 0x07),
         entrance12_GetSequenceIndex = unat (packed e 1 AND 0x0F),
         entrance12_GetPathType = unat (packed e 2)\<rparr>),
      src_AsWall = (\<lambda>e.
        \<lparr>wall12_GetEntryIndex = unat (packed e 0),
         wall12_GetSlope = unat (drop_bit 6 (rct12_type e)),
         wall12_GetPrimaryColour = unat (packed e 2 AND 0x1F),
         wall12_GetSecondaryColour = unat (packed e 1 AND 0x1F),
         wall12_GetTertiaryColour = unat (packed e 3 AND 0x1F),
         wall12_GetAnimationFrame = unat (drop_bit 3 (packed e 2) AND 0x0F),
         wall12_GetBannerIndex = unat (packed e 1),
         wall12_IsAcrossTrack = bit (packed e 2) 2,
         wall12_AnimationIsBackwards = bit (packed e 2) 7\<rparr>),
      src_AsLargeScenery = (\<lambda>e.
        \<lparr>large12_GetEntryIndex = unat (packed e 0) + 256 * unat (packed e 1 AND 0x03),
         large12_GetSequenceIndex = unat (drop_bit 2 (packed e 1)),
         large12_GetPrimaryColour = unat (packed e 2 AND 0x1F),
         large12_GetSecondaryColour = unat (packed e 3 AND 0x1F),
         large12_GetBannerIndex = unat (drop_bit 5 (packed e 2)) + 8 * unat (drop_bit 5 (packed e 3))\<rparr>),
      src_AsBanner = (\<lambda>e.
        \<lparr>banner12_GetIndex = unat (packed e 0),
         banner12_GetPosition = unat (packed e 1),
         banner12_GetAllowedEdges = unat (packed e 2 AND 0x0F)\<rparr>)\<rparr>"

text \<open>One raw record for each tag, and two that are copied verbatim.\<close>

definition raw_record :: "u8 \<Rightarrow> u8 \<Rightarrow> u8 \<Rightarrow> u8 \<Rightarrow> u8 list \<Rightarrow> RCT12TileElement" where
  "raw_record t f b c p =
     \<lparr>rct12_type = t, rct12_flags = f, rct12_base_height = b, rct12_clearance_height = c,
      rct12_pad_04 = p\<rparr>"

definition sample_surface :: RCT12TileElement where
  "sample_surface = raw_record 0x41 0x00 14 14 [0x23, 0x6A, 0x05, 0x2F]"

definition sample_path :: RCT12TileElement where
  "sample_path = raw_record 0x85 0x00 16 20 [0x2E, 0xB3, 0x5A, 0x07]"

definition sample_track :: RCT12TileElement where
  "sample_track = raw_record 0x8A 0x20 18 26 [0x3B, 0x92, 0x1D, 0x04]"

definition sample_small_scenery :: RCT12TileElement where
  "sample_small_scenery = raw_record 0x4F 0x00 14 22 [0x11, 0x03, 0x3C, 0x09]"

definition sample_entrance :: RCT12TileElement where
  "sample_entrance = raw_record 0x12 0x00 14 21 [0x01, 0x21, 0x00, 0x04]"

definition sample_wall :: RCT12TileElement where
  "sample_wall = raw_record 0x57 0x00 14 18 [0x08, 0x15, 0x9C, 0x02]"

definition sample_large_scenery :: RCT12TileElement where
  "sample_large_scenery = raw_record 0x19 0x00 14 40 [0x05, 0x0D, 0x47, 0x23]"

definition sample_banner :: RCT12TileElement where
  "sample_banner = raw_record 0x1C 0x00 14 16 [0x03, 0x02, 0x0B, 0x00]"

definition sample_padding :: RCT12TileElement where
  "sample_padding = raw_record 0x00 0x00 0xFF 0xFF [0x12, 0x34, 0x56, 0x78]"

definition sample_corrupt :: RCT12TileElement where
  "sample_corrupt = raw_record 0x20 0x00 14 14 [0x00, 0x00, 0x00, 0x00]"

text \<open>What the sample accessors make of the eight supported samples.\<close>

definition decoded_sample_surface :: TileElement where
  "decoded_sample_surface =
     \<lparr>te_type = TILE_ELEMENT_TYPE_SURFACE, te_direction = 1, te_flags = 0,
          te_base_height = 14, te_clearance_height = 14,
          te_data = Surface
            \<lparr>surface_Slope = 3, surface_SurfaceStyle = 11, surface_EdgeStyle = 1,
             surface_GrassLength = 5, surface_Ownership = 32, surface_ParkFences = 15,
             surface_WaterHeight = 10, surface_HasTrackThatNeedsWater = True\<rparr>\<rparr>"

definition decoded_sample_path :: TileElement where
  "decoded_sample_path =
     \<lparr>te_type = TILE_ELEMENT_TYPE_PATH, te_direction = 1, te_flags = 0,
          te_base_height = 16, te_clearance_height = 20,
          te_data = Path
            \<lparr>path_PathEntryIndex = 2, path_QueueBannerDirection = 2, path_Sloped = True,
             path_SlopeDirection = 2, path_RideIndex = 7, path_StationIndex = 3,
             path_Wide = False, path_IsQueue = True, path_HasQueueBanner = True,
             path_Edges = 10, path_Corners = 5, path_Addition = 3,
             path_AdditionIsGhost = True, path_AdditionStatus = 7\<rparr>\<rparr>"

definition decoded_sample_track :: TileElement where
  "decoded_sample_track =
     \<lparr>te_type = TILE_ELEMENT_TYPE_TRACK, te_direction = 2, te_flags = 32,
          te_base_height = 18, te_clearance_height = 26,
          te_data = Track
            \<lparr>track_TrackType = 59, track_SequenceIndex = 2, track_RideIndex = 4,
             track_ColourScheme = 1, track_StationIndex = 1, track_HasChain = True,
             track_HasCableLift = True, track_Inverted = True, track_BrakeBoosterSpeed = 18,
             track_HasGreenLight = True, track_SeatRotation = 1, track_MazeEntry = 7570,
             track_PhotoTimeout = 9\<rparr>\<rparr>"

definition decoded_sample_small_scenery :: TileElement where
  "decoded_sample_small_scenery =
     \<lparr>te_type = TILE_ELEMENT_TYPE_SMALL_SCENERY, te_direction = 3, te_flags = 0,
          te_base_height = 14, te_clearance_height = 22,
          te_data = SmallScenery
            \<lparr>small_EntryIndex = 17, small_Age = 3, small_SceneryQuadrant = 1,
             small_PrimaryColour = 28, small_SecondaryColour = 9,
             small_NeedsSupports = True\<rparr>\<rparr>"

definition decoded_sample_entrance :: TileElement where
  "decoded_sample_entrance =
     \<lparr>te_type = TILE_ELEMENT_TYPE_ENTRANCE, te_direction = 2, te_flags = 0,
          te_base_height = 14, te_clearance_height = 21,
          te_data = Entrance
            \<lparr>entrance_EntranceType = 1, entrance_RideIndex = 4, entrance_StationIndex = 2,
             entrance_SequenceIndex = 1, entrance_PathType = 0\<rparr>\<rparr>"

definition decoded_sample_wall :: TileElement where
  "decoded_sample_wall =
     \<lparr>te_type = TILE_ELEMENT_TYPE_WALL, te_direction = 3, te_flags = 0,
          te_base_height = 14, te_clearance_height = 18,
          te_data = Wall
            \<lparr>wall_EntryIndex = 8, wall_Slope = 1, wall_PrimaryColour = 28,
             wall_SecondaryColour = 21, wall_TertiaryColour = 2, wall_AnimationFrame = 3,
             wall_BannerIndex = 21, wall_AcrossTrack = True,
             wall_AnimationIsBackwards = True\<rparr>\<rparr>"

definition decoded_sample_large_scenery :: TileElement where
  "decoded_sample_large_scenery =
     \<lparr>te_type = TILE_ELEMENT_TYPE_LARGE_SCENERY, te_direction = 1, te_flags = 0,
          te_base_height = 14, te_clearance_height = 40,
          te_data = LargeScenery
            \<lparr>large_EntryIndex = 261, large_SequenceIndex = 3, large_PrimaryColour = 7,
             large_SecondaryColour = 3, large_BannerIndex = 10\<rparr>\<rparr>"

definition decoded_sample_banner :: TileElement where
  "decoded_sample_banner =
     \<lparr>te_type = TILE_ELEMENT_TYPE_BANNER, te_direction = 0, te_flags = 0,
          te_base_height = 14, te_clearance_height = 16,
          te_data = Banner
            \<lparr>banner_Index = 3, banner_Position = 2, banner_AllowedEdges = 11\<rparr>\<rparr>"

text \<open>
  A sample stream: the header it carries, whether its checksum is valid, the declared lengths
  of the chunks still to come and the number of packed objects. A chunk read succeeds when the
  next declared length is the expected one.
\<close>

record sample_stream =
  ss_header :: rct_s6_header
  ss_checksum_valid :: bool
  ss_chunk_lengths :: "nat list"
  ss_packed_objects :: nat

definition sample_ops :: "(sample_stream, rct_s6_header) stream_ops" where
  "sample_ops =
     \<lparr>ValidateChecksum = ss_checksum_valid,
      ReadChunk = (\<lambda>s n.
        case ss_chunk_lengths s of
          [] \<Rightarrow> Inl ''unexpected end of stream''
        | k # rest \<Rightarrow>
            if k = n then Inr (ss_header s, s\<lparr>ss_chunk_lengths := rest\<rparr>)
            else Inl ''chunk size mismatch''),
      ExportPackedObject = (\<lambda>s.
        if ss_packed_objects s = 0 then Inl ''no packed object''
        else Inr (s\<lparr>ss_packed_objects := ss_packed_objects s - 1\<rparr>)),
      header_of = (\<lambda>chunk. chunk),
      sizeof_header = 32, sizeof_info = 408, sizeof_objects = 11536,
      sizeof_tile_elements = 1572864\<rparr>"

definition scenario_chunk_lengths :: "nat list" where
  "scenario_chunk_lengths =
     [32, 408, 11536, 16, 1572864, 2560076, 4, 8, 2, 1082, 16, 4, 483816]"

definition savedgame_chunk_lengths :: "nat list" where
  "savedgame_chunk_lengths = [32, 11536, 16, 1572864, 3048816]"

definition start :: "'s \<Rightarrow> ('s, 'c) load_state" where
  "start s = \<lparr>ls_stream = s, ls_chunks = []\<rparr>"

text \<open>A scenario and a saved game, both with a wrong checksum, and a saved game with the
  classic flag 0xf.\<close>

definition sample_scenario :: sample_stream where
  "sample_scenario =
     \<lparr>ss_header = \<lparr>hdr_type = S6_TYPE_SCENARIO, hdr_classic_flag = 0, hdr_num_packed_objects = 1\<rparr>,
      ss_checksum_valid = False, ss_chunk_lengths = scenario_chunk_lengths,
      ss_packed_objects = 1\<rparr>"

definition sample_savedgame :: sample_stream where
  "sample_savedgame =
     \<lparr>ss_header = \<lparr>hdr_type = S6_TYPE_SAVEDGAME, hdr_classic_flag = 0, hdr_num_packed_objects = 0\<rparr>,
      ss_checksum_valid = False, ss_chunk_lengths = savedgame_chunk_lengths,
      ss_packed_objects = 0\<rparr>"

definition sample_classic :: sample_stream where
  "sample_classic =
     \<lparr>ss_header = \<lparr>hdr_type = S6_TYPE_SAVEDGAME, hdr_classic_flag = 0xf, hdr_num_packed_objects = 0\<rparr>,
      ss_checksum_valid = True, ss_chunk_lengths = savedgame_chunk_lengths,
      ss_packed_objects = 0\<rparr>"

definition sample_classic_scenario :: sample_stream where
  "sample_classic_scenario =
     \<lparr>ss_header = \<lparr>hdr_type = S6_TYPE_SCENARIO, hdr_classic_flag = 0xf, hdr_num_packed_objects = 0\<rparr>,
      ss_checksum_valid = True, ss_chunk_lengths = scenario_chunk_lengths,
      ss_packed_objects = 0\<rparr>"

text \<open>A sample of the land-ownership correction (it records the tiles it is given) and two
  parks that differ only in the case of their filename.\<close>

definition sample_FixLandOwnership :: "(nat \<times> nat) list \<Rightarrow> nat \<Rightarrow> ((nat \<times> nat) \<times> nat) list \<Rightarrow> ((nat \<times> nat) \<times> nat) list" where
  "sample_FixLandOwnership tiles ownership world = map (\<lambda>tile. (tile, ownership)) tiles @ world"

definition sample_spawns :: "rct12_peep_spawn list" where
  "sample_spawns =
     [\<lparr>spawn12_x = 1200, spawn12_y = 1280, spawn12_z = 7, spawn12_direction = 0\<rparr>,
      \<lparr>spawn12_x = 0xFFFF, spawn12_y = 0, spawn12_z = 0, spawn12_direction = 0\<rparr>]"

definition park_lower_case :: s6_spawn_data where
  "park_lower_case = \<lparr>scenario_filename = ''amity airfield.sc6'', peep_spawns = sample_spawns\<rparr>"

definition park_amity :: s6_spawn_data where
  "park_amity = \<lparr>scenario_filename = ''Amity Airfield.SC6'', peep_spawns = sample_spawns\<rparr>"

text \<open>Two parks with registered filenames whose two raw spawns are both defined, and a park
  with an unregistered filename.\<close>

definition two_spawns :: "rct12_peep_spawn list" where
  "two_spawns =
     [\<lparr>spawn12_x = 1200, spawn12_y = 1280, spawn12_z = 7, spawn12_direction = 0\<rparr>,
      \<lparr>spawn12_x = 1500, spawn12_y = 900, spawn12_z = 3, spawn12_direction = 2\<rparr>]"

definition park_rio :: s6_spawn_data where
  "park_rio =
     \<lparr>scenario_filename = ''South America - Rio Carnival.SC6'', peep_spawns = two_spawns\<rparr>"

definition park_great_wall :: s6_spawn_data where
  "park_great_wall =
     \<lparr>scenario_filename = ''Great Wall of China Tourism Enhancement.SC6'',
      peep_spawns = two_spawns\<rparr>"

definition park_plain :: s6_spawn_data where
  "park_plain =
     \<lparr>scenario_filename = ''Park.SC6'',
      peep_spawns =
        [\<lparr>spawn12_x = 100, spawn12_y = 100, spawn12_z = 5, spawn12_direction = 1\<rparr>,
         \<lparr>spawn12_x = 0xFFFF, spawn12_y = 7, spawn12_z = 9, spawn12_direction = 2\<rparr>,
         \<lparr>spawn12_x = 300, spawn12_y = 400, spawn12_z = 255, spawn12_direction = 3\<rparr>]\<rparr>"

section \<open>Properties\<close>

subsection \<open>Peep spawns\<close>

lemma ImportPeepSpawns_loop_eq:
  "ImportPeepSpawns_loop ps acc =
     acc @ map spawn_of (filter (\<lambda>p. spawn12_x p \<noteq> PEEP_SPAWN_UNDEFINED) ps)"
  by (induction ps arbitrary: acc) (simp_all add: spawn_of_def)

text \<open>
  C6 (as amended). For a park whose filename is none of the five names
  \<^verbatim>\<open>ImportPeepSpawns\<close> corrects, \<^verbatim>\<open>_s6\<close> is left as it is and the spawn list consists
  of exactly the raw entries whose x is not the undefined sentinel, in index order, each with
  the same x, y and direction and with z multiplied by 16. For the five names the same rule is
  applied to the raw array after its correction: entry 0 replaced by (2160, 3167, 6, 1) and
  entry 1 made undefined (Rio Carnival), entry 1 made undefined (Great Wall of China), the y of
  entry 0 set to 1296 (Amity Airfield).
\<close>

theorem ImportPeepSpawns_entries:
  "(scenario_filename s6 \<notin> set spawn_fixup_filenames \<longrightarrow>
      ImportPeepSpawns s6 =
        (s6,
         map (\<lambda>p. \<lparr>spawn_x = uint (spawn12_x p), spawn_y = uint (spawn12_y p),
                    spawn_z = uint (spawn12_z p) * 16, spawn_direction = spawn12_direction p\<rparr>)
             (filter (\<lambda>p. spawn12_x p \<noteq> PEEP_SPAWN_UNDEFINED) (peep_spawns s6))))
   \<and> (scenario_filename s6 = ''WW South America - Rio Carnival.SC6''
        \<or> scenario_filename s6 = ''South America - Rio Carnival.SC6'' \<longrightarrow>
        snd (ImportPeepSpawns s6) =
          map (\<lambda>p. \<lparr>spawn_x = uint (spawn12_x p), spawn_y = uint (spawn12_y p),
                     spawn_z = uint (spawn12_z p) * 16, spawn_direction = spawn12_direction p\<rparr>)
              (filter (\<lambda>p. spawn12_x p \<noteq> PEEP_SPAWN_UNDEFINED)
                 ((peep_spawns s6)
                    [0 := \<lparr>spawn12_x = 2160, spawn12_y = 3167, spawn12_z = 6,
                           spawn12_direction = 1\<rparr>,
                     1 := (peep_spawns s6 ! 1)\<lparr>spawn12_x := PEEP_SPAWN_UNDEFINED\<rparr>])))
   \<and> (scenario_filename s6 = ''Great Wall of China Tourism Enhancement.SC6''
        \<or> scenario_filename s6 = ''Asia - Great Wall of China Tourism Enhancement.SC6'' \<longrightarrow>
        snd (ImportPeepSpawns s6) =
          map (\<lambda>p. \<lparr>spawn_x = uint (spawn12_x p), spawn_y = uint (spawn12_y p),
                     spawn_z = uint (spawn12_z p) * 16, spawn_direction = spawn12_direction p\<rparr>)
              (filter (\<lambda>p. spawn12_x p \<noteq> PEEP_SPAWN_UNDEFINED)
                 ((peep_spawns s6)
                    [1 := (peep_spawns s6 ! 1)\<lparr>spawn12_x := PEEP_SPAWN_UNDEFINED\<rparr>])))
   \<and> (scenario_filename s6 = ''Amity Airfield.SC6'' \<longrightarrow>
        snd (ImportPeepSpawns s6) =
          map (\<lambda>p. \<lparr>spawn_x = uint (spawn12_x p), spawn_y = uint (spawn12_y p),
                     spawn_z = uint (spawn12_z p) * 16, spawn_direction = spawn12_direction p\<rparr>)
              (filter (\<lambda>p. spawn12_x p \<noteq> PEEP_SPAWN_UNDEFINED)
                 ((peep_spawns s6)
                    [0 := (peep_spawns s6 ! 0)\<lparr>spawn12_y := 1296\<rparr>])))"
proof (intro conjI impI)
  assume "scenario_filename s6 \<notin> set spawn_fixup_filenames"
  then have "ImportPeepSpawns_fixups s6 = s6"
    by (simp add: spawn_fixup_filenames_def ImportPeepSpawns_fixups_def String_Equals_def)
  then show "ImportPeepSpawns s6 =
        (s6,
         map (\<lambda>p. \<lparr>spawn_x = uint (spawn12_x p), spawn_y = uint (spawn12_y p),
                    spawn_z = uint (spawn12_z p) * 16, spawn_direction = spawn12_direction p\<rparr>)
             (filter (\<lambda>p. spawn12_x p \<noteq> PEEP_SPAWN_UNDEFINED) (peep_spawns s6)))"
    by (simp add: ImportPeepSpawns_def ImportPeepSpawns_loop_eq spawn_of_def)
next
  assume "scenario_filename s6 = ''WW South America - Rio Carnival.SC6''
        \<or> scenario_filename s6 = ''South America - Rio Carnival.SC6''"
  then have "peep_spawns (ImportPeepSpawns_fixups s6) =
      (peep_spawns s6)
         [0 := \<lparr>spawn12_x = 2160, spawn12_y = 3167, spawn12_z = 6, spawn12_direction = 1\<rparr>,
          1 := (peep_spawns s6 ! 1)\<lparr>spawn12_x := PEEP_SPAWN_UNDEFINED\<rparr>]"
    by (auto simp: ImportPeepSpawns_fixups_def String_Equals_def Let_def)
  then show "snd (ImportPeepSpawns s6) =
          map (\<lambda>p. \<lparr>spawn_x = uint (spawn12_x p), spawn_y = uint (spawn12_y p),
                     spawn_z = uint (spawn12_z p) * 16, spawn_direction = spawn12_direction p\<rparr>)
              (filter (\<lambda>p. spawn12_x p \<noteq> PEEP_SPAWN_UNDEFINED)
                 ((peep_spawns s6)
                    [0 := \<lparr>spawn12_x = 2160, spawn12_y = 3167, spawn12_z = 6,
                           spawn12_direction = 1\<rparr>,
                     1 := (peep_spawns s6 ! 1)\<lparr>spawn12_x := PEEP_SPAWN_UNDEFINED\<rparr>]))"
    by (simp add: ImportPeepSpawns_def ImportPeepSpawns_loop_eq spawn_of_def)
next
  assume "scenario_filename s6 = ''Great Wall of China Tourism Enhancement.SC6''
        \<or> scenario_filename s6 = ''Asia - Great Wall of China Tourism Enhancement.SC6''"
  then have "peep_spawns (ImportPeepSpawns_fixups s6) =
      (peep_spawns s6) [1 := (peep_spawns s6 ! 1)\<lparr>spawn12_x := PEEP_SPAWN_UNDEFINED\<rparr>]"
    by (auto simp: ImportPeepSpawns_fixups_def String_Equals_def)
  then show "snd (ImportPeepSpawns s6) =
          map (\<lambda>p. \<lparr>spawn_x = uint (spawn12_x p), spawn_y = uint (spawn12_y p),
                     spawn_z = uint (spawn12_z p) * 16, spawn_direction = spawn12_direction p\<rparr>)
              (filter (\<lambda>p. spawn12_x p \<noteq> PEEP_SPAWN_UNDEFINED)
                 ((peep_spawns s6)
                    [1 := (peep_spawns s6 ! 1)\<lparr>spawn12_x := PEEP_SPAWN_UNDEFINED\<rparr>]))"
    by (simp add: ImportPeepSpawns_def ImportPeepSpawns_loop_eq spawn_of_def)
next
  assume "scenario_filename s6 = ''Amity Airfield.SC6''"
  then have "peep_spawns (ImportPeepSpawns_fixups s6) =
      (peep_spawns s6) [0 := (peep_spawns s6 ! 0)\<lparr>spawn12_y := 1296\<rparr>]"
    by (simp add: ImportPeepSpawns_fixups_def String_Equals_def)
  then show "snd (ImportPeepSpawns s6) =
          map (\<lambda>p. \<lparr>spawn_x = uint (spawn12_x p), spawn_y = uint (spawn12_y p),
                     spawn_z = uint (spawn12_z p) * 16, spawn_direction = spawn12_direction p\<rparr>)
              (filter (\<lambda>p. spawn12_x p \<noteq> PEEP_SPAWN_UNDEFINED)
                 ((peep_spawns s6)
                    [0 := (peep_spawns s6 ! 0)\<lparr>spawn12_y := 1296\<rparr>]))"
    by (simp add: ImportPeepSpawns_def ImportPeepSpawns_loop_eq spawn_of_def)
qed

theorem ImportPeepSpawns_entries_witness:
  "scenario_filename park_plain \<notin> set spawn_fixup_filenames
   \<and> ImportPeepSpawns park_plain =
       (park_plain,
        [\<lparr>spawn_x = 100, spawn_y = 100, spawn_z = 80, spawn_direction = 1\<rparr>,
         \<lparr>spawn_x = 300, spawn_y = 400, spawn_z = 4080, spawn_direction = 3\<rparr>])
   \<and> snd (ImportPeepSpawns park_rio)
       = [\<lparr>spawn_x = 2160, spawn_y = 3167, spawn_z = 96, spawn_direction = 1\<rparr>]
   \<and> snd (ImportPeepSpawns park_great_wall)
       = [\<lparr>spawn_x = 1200, spawn_y = 1280, spawn_z = 112, spawn_direction = 0\<rparr>]
   \<and> snd (ImportPeepSpawns park_amity)
       = [\<lparr>spawn_x = 1200, spawn_y = 1296, spawn_z = 112, spawn_direction = 0\<rparr>]"
proof -
  have plain: "scenario_filename park_plain \<notin> set spawn_fixup_filenames"
    by (simp add: park_plain_def spawn_fixup_filenames_def)
  have rio: "scenario_filename park_rio = ''WW South America - Rio Carnival.SC6''
        \<or> scenario_filename park_rio = ''South America - Rio Carnival.SC6''"
    by (simp add: park_rio_def)
  have wall: "scenario_filename park_great_wall = ''Great Wall of China Tourism Enhancement.SC6''
        \<or> scenario_filename park_great_wall
            = ''Asia - Great Wall of China Tourism Enhancement.SC6''"
    by (simp add: park_great_wall_def)
  have amity: "scenario_filename park_amity = ''Amity Airfield.SC6''"
    by (simp add: park_amity_def)
  from ImportPeepSpawns_entries [of park_plain, THEN conjunct1, THEN mp, OF plain]
  have r1: "ImportPeepSpawns park_plain =
       (park_plain,
        [\<lparr>spawn_x = 100, spawn_y = 100, spawn_z = 80, spawn_direction = 1\<rparr>,
         \<lparr>spawn_x = 300, spawn_y = 400, spawn_z = 4080, spawn_direction = 3\<rparr>])"
    by (simp add: park_plain_def PEEP_SPAWN_UNDEFINED_def)
  from ImportPeepSpawns_entries [of park_rio, THEN conjunct2, THEN conjunct1, THEN mp, OF rio]
  have r2: "snd (ImportPeepSpawns park_rio)
       = [\<lparr>spawn_x = 2160, spawn_y = 3167, spawn_z = 96, spawn_direction = 1\<rparr>]"
    by (simp add: park_rio_def two_spawns_def PEEP_SPAWN_UNDEFINED_def)
  from ImportPeepSpawns_entries [of park_great_wall, THEN conjunct2, THEN conjunct2,
      THEN conjunct1, THEN mp, OF wall]
  have r3: "snd (ImportPeepSpawns park_great_wall)
       = [\<lparr>spawn_x = 1200, spawn_y = 1280, spawn_z = 112, spawn_direction = 0\<rparr>]"
    by (simp add: park_great_wall_def two_spawns_def PEEP_SPAWN_UNDEFINED_def)
  from ImportPeepSpawns_entries [of park_amity, THEN conjunct2, THEN conjunct2,
      THEN conjunct2, THEN mp, OF amity]
  have r4: "snd (ImportPeepSpawns park_amity)
       = [\<lparr>spawn_x = 1200, spawn_y = 1296, spawn_z = 112, spawn_direction = 0\<rparr>]"
    by (simp add: park_amity_def sample_spawns_def PEEP_SPAWN_UNDEFINED_def)
  from plain r1 r2 r3 r4 show ?thesis by simp
qed

text \<open>
  C6 as stated fails on the registered filenames: in the Amity Airfield park a raw entry with
  a defined x and y 1280 is migrated with y 1296, and in the Rio Carnival park the raw entry 1,
  whose x is defined, is dropped and entry 0 is migrated with other coordinates.
\<close>

theorem ImportPeepSpawns_fixup_counterexample:
  "spawn12_x (peep_spawns park_amity ! 0) \<noteq> PEEP_SPAWN_UNDEFINED
   \<and> uint (spawn12_y (peep_spawns park_amity ! 0)) = 1280
   \<and> spawn_y (snd (ImportPeepSpawns park_amity) ! 0) = 1296
   \<and> spawn12_x (peep_spawns park_rio ! 0) \<noteq> PEEP_SPAWN_UNDEFINED
   \<and> spawn12_x (peep_spawns park_rio ! 1) \<noteq> PEEP_SPAWN_UNDEFINED
   \<and> length (snd (ImportPeepSpawns park_rio)) = 1
   \<and> uint (spawn12_x (peep_spawns park_rio ! 0)) = 1200
   \<and> spawn_x (snd (ImportPeepSpawns park_rio) ! 0) = 2160"
  by (simp add: ImportPeepSpawns_def ImportPeepSpawns_fixups_def String_Equals_def
        park_amity_def park_rio_def sample_spawns_def two_spawns_def PEEP_SPAWN_UNDEFINED_def)

subsection \<open>Research bitmaps\<close>

lemma fold_mark_invented:
  "fold (\<lambda>i (t :: invented_table). if P i then t(i := True) else t) [0..<n] t0 k
     = ((k < n \<and> P k) \<or> t0 k)"
  by (induction n) auto

lemma ImportResearchedRideTypes_at:
  "ImportResearchedRideTypes L s6 i =
     (i < RIDE_TYPE_COUNT L \<and> bit (researched_ride_types s6 ! drop_bit 5 i) (i AND 0x1F))"
  unfolding ImportResearchedRideTypes_def Let_def ride_type_set_invented_def
    set_every_ride_type_not_invented_def bit_iff_and_push_bit_not_eq_0
  by (simp only: fold_mark_invented) simp

lemma ImportResearchedRideEntries_at:
  "ImportResearchedRideEntries L s6 i =
     (i < MAX_RIDE_OBJECTS L \<and> bit (researched_ride_entries s6 ! drop_bit 5 i) (i AND 0x1F))"
  unfolding ImportResearchedRideEntries_def Let_def ride_entry_set_invented_def
    set_every_ride_entry_not_invented_def bit_iff_and_push_bit_not_eq_0
  by (simp only: fold_mark_invented) simp

lemma ImportResearchedSceneryItems_at:
  "ImportResearchedSceneryItems L s6 i =
     (i < RCT2_MAX_RESEARCHED_SCENERY_ITEMS L
      \<and> bit (researched_scenery_items s6 ! drop_bit 5 i) (i AND 0x1F))"
  unfolding ImportResearchedSceneryItems_def Let_def scenery_set_invented_def
    set_all_scenery_items_not_invented_def bit_iff_and_push_bit_not_eq_0
  by (simp only: fold_mark_invented) simp

text \<open>
  C8. After the baseline "not invented", an index in the ride-type, ride-entry or scenery-item
  range is invented if and only if bit (index AND 31) of word (index >> 5) of the corresponding
  bit array is set; the word read is inside the array.
\<close>

theorem research_bitmap_decode:
  assumes "research_arrays_cover L s6"
  shows "(i < RIDE_TYPE_COUNT L \<longrightarrow>
            drop_bit 5 i < length (researched_ride_types s6)
            \<and> ImportResearchedRideTypes L s6 i
                = bit (researched_ride_types s6 ! drop_bit 5 i) (i AND 0x1F))
       \<and> (i < MAX_RIDE_OBJECTS L \<longrightarrow>
            drop_bit 5 i < length (researched_ride_entries s6)
            \<and> ImportResearchedRideEntries L s6 i
                = bit (researched_ride_entries s6 ! drop_bit 5 i) (i AND 0x1F))
       \<and> (i < RCT2_MAX_RESEARCHED_SCENERY_ITEMS L \<longrightarrow>
            drop_bit 5 i < length (researched_scenery_items s6)
            \<and> ImportResearchedSceneryItems L s6 i
                = bit (researched_scenery_items s6 ! drop_bit 5 i) (i AND 0x1F))"
proof -
  have in_range: "drop_bit 5 i < n" if "i < m" "m \<le> 32 * n" for m n :: nat
  proof -
    have "i < 32 * n" using that by simp
    then have "i div 32 < n" by (simp add: less_mult_imp_div_less mult.commute)
    then show ?thesis by (simp add: drop_bit_eq_div)
  qed
  from assms show ?thesis
    unfolding research_arrays_cover_def
    by (auto simp: ImportResearchedRideTypes_at ImportResearchedRideEntries_at
          ImportResearchedSceneryItems_at intro: in_range)
qed

theorem research_bitmap_decode_witness:
  "research_arrays_cover sample_research_limits only_bit_5
   \<and> ImportResearchedRideTypes sample_research_limits only_bit_5 5
   \<and> \<not> ImportResearchedRideTypes sample_research_limits only_bit_5 4
   \<and> \<not> ImportResearchedRideTypes sample_research_limits only_bit_5 6
   \<and> ImportResearchedRideEntries sample_research_limits only_bit_5 5
   \<and> \<not> ImportResearchedRideEntries sample_research_limits only_bit_5 4
   \<and> \<not> ImportResearchedRideEntries sample_research_limits only_bit_5 6
   \<and> ImportResearchedSceneryItems sample_research_limits only_bit_5 5
   \<and> \<not> ImportResearchedSceneryItems sample_research_limits only_bit_5 4
   \<and> \<not> ImportResearchedSceneryItems sample_research_limits only_bit_5 6"
proof -
  have cover: "research_arrays_cover sample_research_limits only_bit_5"
    by (simp add: research_arrays_cover_def sample_research_limits_def only_bit_5_def)
  show ?thesis
    using cover
      research_bitmap_decode [OF cover, of 5]
      research_bitmap_decode [OF cover, of 4]
      research_bitmap_decode [OF cover, of 6]
    by (simp add: sample_research_limits_def only_bit_5_def)
qed

subsection \<open>Rides\<close>

lemma count_riders_eq:
  "count_riders sprites rideIndex n = n + of_nat (length (filter (is_rider_of rideIndex) sprites))"
  by (induction sprites arbitrary: n) (auto simp: is_rider_of_def)

lemma ImportRides_nth:
  assumes "index < RCT12_MAX_RIDES_IN_PARK L" and "index < length ride_list"
  shows "ImportRides L sprites rides ride_list ! index =
           (if r2_type (rides ! index) \<noteq> RIDE_TYPE_NULL
            then ImportRide L sprites (rides ! index) (of_nat index)
            else ride_list ! index)"
proof -
  have step: "length (fold (\<lambda>i ds. if P i then ds[i := f i] else ds) [0..<n] ds0) = length ds0
      \<and> (\<forall>k < length ds0.
            fold (\<lambda>i ds. if P i then ds[i := f i] else ds) [0..<n] ds0 ! k
              = (if k < n \<and> P k then f k else ds0 ! k))"
    for P :: "nat \<Rightarrow> bool" and f :: "nat \<Rightarrow> Ride" and n ds0
    by (induction n) (auto simp: nth_list_update)
  show ?thesis
    unfolding ImportRides_def Let_def
    using step [of "\<lambda>i. r2_type (rides ! i) \<noteq> RIDE_TYPE_NULL"
                   "\<lambda>i. ImportRide L sprites (rides ! i) (of_nat i)"
                   "RCT12_MAX_RIDES_IN_PARK L" ride_list] assms
    by simp
qed

text \<open>
  C7. The rider count of an imported ride is the number of sprites of \<^verbatim>\<open>_s6.sprites\<close>
  that are peeps whose current ride is the ride's index and whose state is "on ride" or
  "entering ride" (the sprite array has fewer than 65536 entries, so the 16-bit counter does not
  wrap); the counter stored in the raw ride has no influence on the imported ride.
\<close>

theorem ImportRide_num_riders:
  assumes "length sprites < 65536"
  shows "unat (ride_num_riders (ImportRide L sprites src rideIndex))
           = length (filter (is_rider_of rideIndex) sprites)
       \<and> ImportRide L sprites (src\<lparr>r2_num_riders := stored\<rparr>) rideIndex
           = ImportRide L sprites src rideIndex"
proof -
  have "length (filter (is_rider_of rideIndex) sprites) \<le> length sprites"
    by simp
  with assms have small: "length (filter (is_rider_of rideIndex) sprites) < 65536"
    by linarith
  have "ride_num_riders (ImportRide L sprites src rideIndex)
          = of_nat (length (filter (is_rider_of rideIndex) sprites))"
    by (simp add: ImportRide_def ImportNumRiders_def Let_def count_riders_eq)
  then have "unat (ride_num_riders (ImportRide L sprites src rideIndex))
          = length (filter (is_rider_of rideIndex) sprites)"
    using small by (simp add: unat_of_nat)
  moreover have "ImportRide L sprites (src\<lparr>r2_num_riders := stored\<rparr>) rideIndex
          = ImportRide L sprites src rideIndex"
    by (simp add: ImportRide_def ImportNumRiders_def Let_def import_station_def)
  ultimately show ?thesis by simp
qed

theorem ImportRide_num_riders_witness:
  "length sample_sprites < 65536
   \<and> r2_num_riders sample_ride = 99
   \<and> unat (ride_num_riders (ImportRide sample_ride_limits sample_sprites sample_ride 3)) = 2
   \<and> ImportRide sample_ride_limits sample_sprites (sample_ride\<lparr>r2_num_riders := 0\<rparr>) 3
       = ImportRide sample_ride_limits sample_sprites sample_ride 3"
proof -
  have len: "length sample_sprites < 65536"
    by (simp add: sample_sprites_def)
  show ?thesis
    using len ImportRide_num_riders [OF len, of sample_ride_limits sample_ride 3 0]
    by (simp add: sample_sprites_def is_rider_of_def sample_ride_def)
qed

text \<open>
  C10. For a station index below the legacy per-ride station limit: when the raw exit
  coordinate is not the undefined sentinel, the imported exit location has the x and y of the
  raw entrance of that station (\<^verbatim>\<open>entrances[i]\<close>), the station height as z and direction
  0, whatever defined coordinate \<^verbatim>\<open>exits[i]\<close> holds; when the raw exit coordinate is the
  undefined sentinel, the exit location is cleared.
\<close>

theorem ImportRide_exit_location:
  assumes "i < RCT12_MAX_STATIONS_PER_RIDE L"
  shows "(xy8_xy (r2_exits src ! i) \<noteq> RCT_XY8_UNDEFINED \<longrightarrow>
            st_Exit (ride_stations (ImportRide L sprites src rideIndex) ! i)
              = Some \<lparr>tc_x = uint (xy8_x (r2_entrances src ! i)),
                      tc_y = uint (xy8_y (r2_entrances src ! i)),
                      tc_z = uint (r2_station_heights src ! i), tc_direction = 0\<rparr>
            \<and> (xy8_xy (exits' ! i) \<noteq> RCT_XY8_UNDEFINED \<longrightarrow>
                 st_Exit (ride_stations (ImportRide L sprites (src\<lparr>r2_exits := exits'\<rparr>) rideIndex) ! i)
                   = st_Exit (ride_stations (ImportRide L sprites src rideIndex) ! i)))
       \<and> (xy8_xy (r2_exits src ! i) = RCT_XY8_UNDEFINED \<longrightarrow>
            st_Exit (ride_stations (ImportRide L sprites src rideIndex) ! i) = None)"
proof -
  have nth: "ride_stations (ImportRide L sprites s rideIndex) ! i = import_station s i" for s
    using assms by (simp add: ImportRide_def ImportNumRiders_def Let_def nth_append)
  show ?thesis
    by (simp add: nth import_station_def Let_def ride_set_exit_location_def
          ride_clear_exit_location_def ride_set_entrance_location_def
          ride_clear_entrance_location_def)
qed

theorem ImportRide_exit_location_witness:
  "(0::nat) < RCT12_MAX_STATIONS_PER_RIDE sample_ride_limits
   \<and> (1::nat) < RCT12_MAX_STATIONS_PER_RIDE sample_ride_limits
   \<and> r2_exits sample_ride ! 0 = \<lparr>xy8_x = 11, xy8_y = 22\<rparr>
   \<and> r2_entrances sample_ride ! 0 = \<lparr>xy8_x = 10, xy8_y = 20\<rparr>
   \<and> st_Exit (ride_stations (ImportRide sample_ride_limits sample_sprites sample_ride 3) ! 0)
       = Some \<lparr>tc_x = 10, tc_y = 20, tc_z = 7, tc_direction = 0\<rparr>
   \<and> st_Exit (ride_stations
         (ImportRide sample_ride_limits sample_sprites
            (sample_ride\<lparr>r2_exits := other_exits\<rparr>) 3) ! 0)
       = Some \<lparr>tc_x = 10, tc_y = 20, tc_z = 7, tc_direction = 0\<rparr>
   \<and> xy8_xy (r2_exits sample_ride ! 1) = RCT_XY8_UNDEFINED
   \<and> st_Exit (ride_stations (ImportRide sample_ride_limits sample_sprites sample_ride 3) ! 1)
       = None"
proof -
  have i0: "(0::nat) < RCT12_MAX_STATIONS_PER_RIDE sample_ride_limits"
    and i1: "(1::nat) < RCT12_MAX_STATIONS_PER_RIDE sample_ride_limits"
    by (simp_all add: sample_ride_limits_def)
  have undef: "xy8_xy xy8_undefined = RCT_XY8_UNDEFINED"
    by (simp add: xy8_xy_def xy8_undefined_def RCT_XY8_UNDEFINED_def)
  have def0: "xy8_xy \<lparr>xy8_x = 11, xy8_y = 22\<rparr> \<noteq> RCT_XY8_UNDEFINED"
    and def1: "xy8_xy \<lparr>xy8_x = 50, xy8_y = 60\<rparr> \<noteq> RCT_XY8_UNDEFINED"
    by (simp_all add: xy8_xy_def RCT_XY8_UNDEFINED_def)
  show ?thesis
    using i0 i1
      ImportRide_exit_location [OF i0, where src = sample_ride and exits' = other_exits
        and sprites = sample_sprites and rideIndex = 3]
      ImportRide_exit_location [OF i1, where src = sample_ride and exits' = other_exits
        and sprites = sample_sprites and rideIndex = 3]
    by (simp add: sample_ride_def other_exits_def undef def0 def1)
qed

subsection \<open>Tile elements\<close>

lemma ImportTileElements_slot_decoded:
  assumes "supported_type (GetType A src)" and "rct12_base_height src \<noteq> 0xFF"
  shows "ImportTileElements_slot A src = Decoded (ImportTileElement A src)"
  using assms by (auto simp: ImportTileElements_slot_def supported_type_def Let_def)

text \<open>
  C1. A raw record whose tag is one of the eight supported variants and whose base height is
  not 0xFF is decoded: the destination element has the type, direction, flags, base height and
  clearance height of the source, its variant is the one the tag selects, and each named field
  of that variant is the value of the corresponding getter of the same variant of the source.
  The result is the same under any accessors that agree on the tag, the direction and the
  selected view: no field comes from another variant.
\<close>

theorem ImportTileElement_fields:
  assumes "supported_type (GetType A src)" and "rct12_base_height src \<noteq> 0xFF"
  shows "\<exists>dst. ImportTileElement A src = dst
      \<and> ImportTileElements_slot A src = Decoded dst
      \<and> te_type dst = GetType A src
      \<and> te_direction dst = GetDirection A src
      \<and> te_flags dst = rct12_flags src
      \<and> te_base_height dst = rct12_base_height src
      \<and> te_clearance_height dst = rct12_clearance_height src
      \<and> (GetType A src = TILE_ELEMENT_TYPE_SURFACE \<longrightarrow>
           te_data dst = Surface
             \<lparr>surface_Slope = surface12_GetSlope (src_AsSurface A src),
              surface_SurfaceStyle = surface12_GetSurfaceStyle (src_AsSurface A src),
              surface_EdgeStyle = surface12_GetEdgeStyle (src_AsSurface A src),
              surface_GrassLength = surface12_GetGrassLength (src_AsSurface A src),
              surface_Ownership = surface12_GetOwnership (src_AsSurface A src),
              surface_ParkFences = surface12_GetParkFences (src_AsSurface A src),
              surface_WaterHeight = surface12_GetWaterHeight (src_AsSurface A src),
              surface_HasTrackThatNeedsWater =
                surface12_HasTrackThatNeedsWater (src_AsSurface A src)\<rparr>)
      \<and> (GetType A src = TILE_ELEMENT_TYPE_PATH \<longrightarrow>
           te_data dst = Path
             \<lparr>path_PathEntryIndex = path12_GetEntryIndex (src_AsPath A src),
              path_QueueBannerDirection = path12_GetQueueBannerDirection (src_AsPath A src),
              path_Sloped = path12_IsSloped (src_AsPath A src),
              path_SlopeDirection = path12_GetSlopeDirection (src_AsPath A src),
              path_RideIndex = path12_GetRideIndex (src_AsPath A src),
              path_StationIndex = path12_GetStationIndex (src_AsPath A src),
              path_Wide = path12_IsWide (src_AsPath A src),
              path_IsQueue = path12_IsQueue (src_AsPath A src),
              path_HasQueueBanner = path12_HasQueueBanner (src_AsPath A src),
              path_Edges = path12_GetEdges (src_AsPath A src),
              path_Corners = path12_GetCorners (src_AsPath A src),
              path_Addition = path12_GetAddition (src_AsPath A src),
              path_AdditionIsGhost = path12_AdditionIsGhost (src_AsPath A src),
              path_AdditionStatus = path12_GetAdditionStatus (src_AsPath A src)\<rparr>)
      \<and> (GetType A src = TILE_ELEMENT_TYPE_TRACK \<longrightarrow>
           te_data dst = Track
             \<lparr>track_TrackType = track12_GetTrackType (src_AsTrack A src),
              track_SequenceIndex = track12_GetSequenceIndex (src_AsTrack A src),
              track_RideIndex = track12_GetRideIndex (src_AsTrack A src),
              track_ColourScheme = track12_GetColourScheme (src_AsTrack A src),
              track_StationIndex = track12_GetStationIndex (src_AsTrack A src),
              track_HasChain = track12_HasChain (src_AsTrack A src),
              track_HasCableLift = track12_HasCableLift (src_AsTrack A src),
              track_Inverted = track12_IsInverted (src_AsTrack A src),
              track_BrakeBoosterSpeed = track12_GetBrakeBoosterSpeed (src_AsTrack A src),
              track_HasGreenLight = track12_HasGreenLight (src_AsTrack A src),
              track_SeatRotation = track12_GetSeatRotation (src_AsTrack A src),
              track_MazeEntry = track12_GetMazeEntry (src_AsTrack A src),
              track_PhotoTimeout = track12_GetPhotoTimeout (src_AsTrack A src)\<rparr>)
      \<and> (GetType A src = TILE_ELEMENT_TYPE_SMALL_SCENERY \<longrightarrow>
           te_data dst = SmallScenery
             \<lparr>small_EntryIndex = small12_GetEntryIndex (src_AsSmallScenery A src),
              small_Age = small12_GetAge (src_AsSmallScenery A src),
              small_SceneryQuadrant = small12_GetSceneryQuadrant (src_AsSmallScenery A src),
              small_PrimaryColour = small12_GetPrimaryColour (src_AsSmallScenery A src),
              small_SecondaryColour = small12_GetSecondaryColour (src_AsSmallScenery A src),
              small_NeedsSupports = small12_NeedsSupports (src_AsSmallScenery A src)\<rparr>)
      \<and> (GetType A src = TILE_ELEMENT_TYPE_ENTRANCE \<longrightarrow>
           te_data dst = Entrance
             \<lparr>entrance_EntranceType = entrance12_GetEntranceType (src_AsEntrance A src),
              entrance_RideIndex = entrance12_GetRideIndex (src_AsEntrance A src),
              entrance_StationIndex = entrance12_GetStationIndex (src_AsEntrance A src),
              entrance_SequenceIndex = entrance12_GetSequenceIndex (src_AsEntrance A src),
              entrance_PathType = entrance12_GetPathType (src_AsEntrance A src)\<rparr>)
      \<and> (GetType A src = TILE_ELEMENT_TYPE_WALL \<longrightarrow>
           te_data dst = Wall
             \<lparr>wall_EntryIndex = wall12_GetEntryIndex (src_AsWall A src),
              wall_Slope = wall12_GetSlope (src_AsWall A src),
              wall_PrimaryColour = wall12_GetPrimaryColour (src_AsWall A src),
              wall_SecondaryColour = wall12_GetSecondaryColour (src_AsWall A src),
              wall_TertiaryColour = wall12_GetTertiaryColour (src_AsWall A src),
              wall_AnimationFrame = wall12_GetAnimationFrame (src_AsWall A src),
              wall_BannerIndex = wall12_GetBannerIndex (src_AsWall A src),
              wall_AcrossTrack = wall12_IsAcrossTrack (src_AsWall A src),
              wall_AnimationIsBackwards = wall12_AnimationIsBackwards (src_AsWall A src)\<rparr>)
      \<and> (GetType A src = TILE_ELEMENT_TYPE_LARGE_SCENERY \<longrightarrow>
           te_data dst = LargeScenery
             \<lparr>large_EntryIndex = large12_GetEntryIndex (src_AsLargeScenery A src),
              large_SequenceIndex = large12_GetSequenceIndex (src_AsLargeScenery A src),
              large_PrimaryColour = large12_GetPrimaryColour (src_AsLargeScenery A src),
              large_SecondaryColour = large12_GetSecondaryColour (src_AsLargeScenery A src),
              large_BannerIndex = large12_GetBannerIndex (src_AsLargeScenery A src)\<rparr>)
      \<and> (GetType A src = TILE_ELEMENT_TYPE_BANNER \<longrightarrow>
           te_data dst = Banner
             \<lparr>banner_Index = banner12_GetIndex (src_AsBanner A src),
              banner_Position = banner12_GetPosition (src_AsBanner A src),
              banner_AllowedEdges = banner12_GetAllowedEdges (src_AsBanner A src)\<rparr>)
      \<and> (\<forall>B. same_selected_view A B src \<longrightarrow> ImportTileElement B src = dst)"
proof -
  note slot = ImportTileElements_slot_decoded [OF assms]
  from assms(1) consider
      "GetType A src = TILE_ELEMENT_TYPE_SURFACE" | "GetType A src = TILE_ELEMENT_TYPE_PATH"
    | "GetType A src = TILE_ELEMENT_TYPE_TRACK" | "GetType A src = TILE_ELEMENT_TYPE_SMALL_SCENERY"
    | "GetType A src = TILE_ELEMENT_TYPE_ENTRANCE" | "GetType A src = TILE_ELEMENT_TYPE_WALL"
    | "GetType A src = TILE_ELEMENT_TYPE_LARGE_SCENERY" | "GetType A src = TILE_ELEMENT_TYPE_BANNER"
    unfolding supported_type_def by blast
  then show ?thesis
  proof cases
    case 1 then show ?thesis
      by (simp add: slot ImportTileElement_def same_selected_view_def Let_def)
  next
    case 2 then show ?thesis
      by (simp add: slot ImportTileElement_def same_selected_view_def Let_def)
  next
    case 3 then show ?thesis
      by (simp add: slot ImportTileElement_def same_selected_view_def Let_def)
  next
    case 4 then show ?thesis
      by (simp add: slot ImportTileElement_def same_selected_view_def Let_def)
  next
    case 5 then show ?thesis
      by (simp add: slot ImportTileElement_def same_selected_view_def Let_def)
  next
    case 6 then show ?thesis
      by (simp add: slot ImportTileElement_def same_selected_view_def Let_def)
  next
    case 7 then show ?thesis
      by (simp add: slot ImportTileElement_def same_selected_view_def Let_def)
  next
    case 8 then show ?thesis
      by (simp add: slot ImportTileElement_def same_selected_view_def Let_def)
  qed
qed

lemmas sample_tile_defs =
  sample_accessors_def sample_GetType_def packed_def raw_record_def supported_type_def
  ImportTileElement_def Let_def

theorem ImportTileElement_fields_witness:
  "supported_type (GetType sample_accessors sample_surface)
   \<and> rct12_base_height sample_surface \<noteq> 0xFF
   \<and> ImportTileElements_slot sample_accessors sample_surface = Decoded decoded_sample_surface
   \<and> supported_type (GetType sample_accessors sample_path)
   \<and> rct12_base_height sample_path \<noteq> 0xFF
   \<and> ImportTileElements_slot sample_accessors sample_path = Decoded decoded_sample_path
   \<and> supported_type (GetType sample_accessors sample_track)
   \<and> rct12_base_height sample_track \<noteq> 0xFF
   \<and> ImportTileElements_slot sample_accessors sample_track = Decoded decoded_sample_track
   \<and> supported_type (GetType sample_accessors sample_small_scenery)
   \<and> rct12_base_height sample_small_scenery \<noteq> 0xFF
   \<and> ImportTileElements_slot sample_accessors sample_small_scenery = Decoded decoded_sample_small_scenery
   \<and> supported_type (GetType sample_accessors sample_entrance)
   \<and> rct12_base_height sample_entrance \<noteq> 0xFF
   \<and> ImportTileElements_slot sample_accessors sample_entrance = Decoded decoded_sample_entrance
   \<and> supported_type (GetType sample_accessors sample_wall)
   \<and> rct12_base_height sample_wall \<noteq> 0xFF
   \<and> ImportTileElements_slot sample_accessors sample_wall = Decoded decoded_sample_wall
   \<and> supported_type (GetType sample_accessors sample_large_scenery)
   \<and> rct12_base_height sample_large_scenery \<noteq> 0xFF
   \<and> ImportTileElements_slot sample_accessors sample_large_scenery = Decoded decoded_sample_large_scenery
   \<and> supported_type (GetType sample_accessors sample_banner)
   \<and> rct12_base_height sample_banner \<noteq> 0xFF
   \<and> ImportTileElements_slot sample_accessors sample_banner = Decoded decoded_sample_banner"
proof -
  have t0: "supported_type (GetType sample_accessors sample_surface)"
    and b0: "rct12_base_height sample_surface \<noteq> 0xFF"
    and e0: "ImportTileElement sample_accessors sample_surface = decoded_sample_surface"
    by (simp_all add: sample_tile_defs sample_surface_def decoded_sample_surface_def)
  from ImportTileElement_fields [OF t0 b0] e0
  have s0: "ImportTileElements_slot sample_accessors sample_surface = Decoded decoded_sample_surface"
    by (elim exE conjE) simp
  have t1: "supported_type (GetType sample_accessors sample_path)"
    and b1: "rct12_base_height sample_path \<noteq> 0xFF"
    and e1: "ImportTileElement sample_accessors sample_path = decoded_sample_path"
    by (simp_all add: sample_tile_defs sample_path_def decoded_sample_path_def)
  from ImportTileElement_fields [OF t1 b1] e1
  have s1: "ImportTileElements_slot sample_accessors sample_path = Decoded decoded_sample_path"
    by (elim exE conjE) simp
  have t2: "supported_type (GetType sample_accessors sample_track)"
    and b2: "rct12_base_height sample_track \<noteq> 0xFF"
    and e2: "ImportTileElement sample_accessors sample_track = decoded_sample_track"
    by (simp_all add: sample_tile_defs sample_track_def decoded_sample_track_def)
  from ImportTileElement_fields [OF t2 b2] e2
  have s2: "ImportTileElements_slot sample_accessors sample_track = Decoded decoded_sample_track"
    by (elim exE conjE) simp
  have t3: "supported_type (GetType sample_accessors sample_small_scenery)"
    and b3: "rct12_base_height sample_small_scenery \<noteq> 0xFF"
    and e3: "ImportTileElement sample_accessors sample_small_scenery = decoded_sample_small_scenery"
    by (simp_all add: sample_tile_defs sample_small_scenery_def decoded_sample_small_scenery_def)
  from ImportTileElement_fields [OF t3 b3] e3
  have s3: "ImportTileElements_slot sample_accessors sample_small_scenery = Decoded decoded_sample_small_scenery"
    by (elim exE conjE) simp
  have t4: "supported_type (GetType sample_accessors sample_entrance)"
    and b4: "rct12_base_height sample_entrance \<noteq> 0xFF"
    and e4: "ImportTileElement sample_accessors sample_entrance = decoded_sample_entrance"
    by (simp_all add: sample_tile_defs sample_entrance_def decoded_sample_entrance_def)
  from ImportTileElement_fields [OF t4 b4] e4
  have s4: "ImportTileElements_slot sample_accessors sample_entrance = Decoded decoded_sample_entrance"
    by (elim exE conjE) simp
  have t5: "supported_type (GetType sample_accessors sample_wall)"
    and b5: "rct12_base_height sample_wall \<noteq> 0xFF"
    and e5: "ImportTileElement sample_accessors sample_wall = decoded_sample_wall"
    by (simp_all add: sample_tile_defs sample_wall_def decoded_sample_wall_def)
  from ImportTileElement_fields [OF t5 b5] e5
  have s5: "ImportTileElements_slot sample_accessors sample_wall = Decoded decoded_sample_wall"
    by (elim exE conjE) simp
  have t6: "supported_type (GetType sample_accessors sample_large_scenery)"
    and b6: "rct12_base_height sample_large_scenery \<noteq> 0xFF"
    and e6: "ImportTileElement sample_accessors sample_large_scenery = decoded_sample_large_scenery"
    by (simp_all add: sample_tile_defs sample_large_scenery_def decoded_sample_large_scenery_def)
  from ImportTileElement_fields [OF t6 b6] e6
  have s6: "ImportTileElements_slot sample_accessors sample_large_scenery = Decoded decoded_sample_large_scenery"
    by (elim exE conjE) simp
  have t7: "supported_type (GetType sample_accessors sample_banner)"
    and b7: "rct12_base_height sample_banner \<noteq> 0xFF"
    and e7: "ImportTileElement sample_accessors sample_banner = decoded_sample_banner"
    by (simp_all add: sample_tile_defs sample_banner_def decoded_sample_banner_def)
  from ImportTileElement_fields [OF t7 b7] e7
  have s7: "ImportTileElements_slot sample_accessors sample_banner = Decoded decoded_sample_banner"
    by (elim exE conjE) simp
  show ?thesis
    using t0 b0 s0 t1 b1 s1 t2 b2 s2 t3 b3 s3 t4 b4 s4 t5 b5 s5 t6 b6 s6 t7 b7 s7
    by simp
qed


lemma ImportTileElements_slot_cases:
  "(copied_verbatim A src \<longrightarrow> ImportTileElements_slot A src = Verbatim src)
   \<and> (\<not> copied_verbatim A src \<longrightarrow>
        ImportTileElements_slot A src = Decoded (ImportTileElement A src))"
  by (auto simp: ImportTileElements_slot_def copied_verbatim_def Let_def)

lemma ImportTileElement_variant:
  "supported_type (GetType A src) \<Longrightarrow> te_data (ImportTileElement A src) \<noteq> ClearedOnly"
  by (cases "GetType A src") (simp_all add: ImportTileElement_def supported_type_def Let_def)

text \<open>
  C2. A record whose base height is 0xFF, or whose tag is one of the three corrupt markers, is
  copied verbatim into its slot and the decoder is not applied to it; every other record is
  handed to the decoder and its slot holds what the decoder made of it. The import writes
  exactly \<open>cap\<close> slots, slot \<open>index\<close> being the one of record \<open>index\<close>. On input in which every
  record that is not copied carries one of the eight supported tags, each of those slots holds
  one of the eight variants (the default branch of the decoder, where its assertion stands, is
  not reached).
\<close>

theorem ImportTileElements_slots:
  "(copied_verbatim A src \<longrightarrow> ImportTileElements_slot A src = Verbatim src)
   \<and> (\<not> copied_verbatim A src \<longrightarrow>
        ImportTileElements_slot A src = Decoded (ImportTileElement A src))
   \<and> length (ImportTileElements A cap tile_elements) = cap
   \<and> (\<forall>index < cap.
         ImportTileElements A cap tile_elements ! index =
           (if copied_verbatim A (tile_elements ! index)
            then Verbatim (tile_elements ! index)
            else Decoded (ImportTileElement A (tile_elements ! index))))
   \<and> ((\<forall>index < cap. copied_verbatim A (tile_elements ! index)
                        \<or> supported_type (GetType A (tile_elements ! index))) \<longrightarrow>
        (\<forall>index < cap. \<not> copied_verbatim A (tile_elements ! index) \<longrightarrow>
           te_data (ImportTileElement A (tile_elements ! index)) \<noteq> ClearedOnly))"
proof -
  note sc = ImportTileElements_slot_cases
  have len: "length (ImportTileElements A cap tile_elements) = cap"
    by (simp add: ImportTileElements_def)
  have nth: "\<forall>index < cap.
         ImportTileElements A cap tile_elements ! index =
           (if copied_verbatim A (tile_elements ! index)
            then Verbatim (tile_elements ! index)
            else Decoded (ImportTileElement A (tile_elements ! index)))"
  proof (intro allI impI)
    fix index assume "index < cap"
    then have "ImportTileElements A cap tile_elements ! index
        = ImportTileElements_slot A (tile_elements ! index)"
      by (simp add: ImportTileElements_def)
    with sc [of A "tile_elements ! index"]
    show "ImportTileElements A cap tile_elements ! index =
           (if copied_verbatim A (tile_elements ! index)
            then Verbatim (tile_elements ! index)
            else Decoded (ImportTileElement A (tile_elements ! index)))"
      by simp
  qed
  have valid: "\<forall>index < cap. \<not> copied_verbatim A (tile_elements ! index) \<longrightarrow>
           te_data (ImportTileElement A (tile_elements ! index)) \<noteq> ClearedOnly"
    if ok: "\<forall>index < cap. copied_verbatim A (tile_elements ! index)
                        \<or> supported_type (GetType A (tile_elements ! index))"
  proof (intro allI impI)
    fix index assume "index < cap" and "\<not> copied_verbatim A (tile_elements ! index)"
    with ok have "supported_type (GetType A (tile_elements ! index))" by blast
    then show "te_data (ImportTileElement A (tile_elements ! index)) \<noteq> ClearedOnly"
      by (rule ImportTileElement_variant)
  qed
  show ?thesis
    by (intro conjI sc [of A src, THEN conjunct1] sc [of A src, THEN conjunct2] len nth
          impI [OF valid])
qed

theorem ImportTileElements_slots_witness:
  "copied_verbatim sample_accessors sample_padding
   \<and> copied_verbatim sample_accessors sample_corrupt
   \<and> \<not> copied_verbatim sample_accessors sample_surface
   \<and> supported_type (GetType sample_accessors sample_surface)
   \<and> ImportTileElements_slot sample_accessors sample_padding = Verbatim sample_padding
   \<and> ImportTileElements_slot sample_accessors sample_corrupt = Verbatim sample_corrupt
   \<and> ImportTileElements_slot sample_accessors sample_surface = Decoded decoded_sample_surface
   \<and> ImportTileElements sample_accessors 3 [sample_surface, sample_padding, sample_corrupt]
       = [Decoded decoded_sample_surface, Verbatim sample_padding, Verbatim sample_corrupt]
   \<and> te_data (ImportTileElement sample_accessors sample_surface) \<noteq> ClearedOnly"
proof -
  let ?good = "[sample_surface, sample_padding, sample_corrupt]"
  let ?out = "ImportTileElements sample_accessors 3 ?good"
  have c1: "copied_verbatim sample_accessors sample_padding"
    and c2: "copied_verbatim sample_accessors sample_corrupt"
    and c3: "\<not> copied_verbatim sample_accessors sample_surface"
    and c4: "supported_type (GetType sample_accessors sample_surface)"
    by (simp_all add: copied_verbatim_def sample_tile_defs sample_padding_def
          sample_corrupt_def sample_surface_def)
  have e: "ImportTileElement sample_accessors sample_surface = decoded_sample_surface"
    by (simp add: sample_tile_defs sample_surface_def decoded_sample_surface_def)
  note thm1 = ImportTileElements_slots [of sample_accessors sample_padding 3 ?good]
  note thm2 = ImportTileElements_slots [of sample_accessors sample_corrupt 3 ?good]
  note thm3 = ImportTileElements_slots [of sample_accessors sample_surface 3 ?good]
  have v1: "ImportTileElements_slot sample_accessors sample_padding = Verbatim sample_padding"
    using thm1 [THEN conjunct1] c1 by (rule mp)
  have v2: "ImportTileElements_slot sample_accessors sample_corrupt = Verbatim sample_corrupt"
    using thm2 [THEN conjunct1] c2 by (rule mp)
  have v3: "ImportTileElements_slot sample_accessors sample_surface
      = Decoded decoded_sample_surface"
    using thm3 [THEN conjunct2, THEN conjunct1] c3 e by simp
  have len: "length ?out = 3"
    by (rule thm1 [THEN conjunct2, THEN conjunct2, THEN conjunct1])
  note each = thm1 [THEN conjunct2, THEN conjunct2, THEN conjunct2, THEN conjunct1]
  from each [rule_format, of 0] each [rule_format, of 1] each [rule_format, of 2]
  have n0: "?out ! 0 = Decoded decoded_sample_surface"
    and n1: "?out ! 1 = Verbatim sample_padding"
    and n2: "?out ! 2 = Verbatim sample_corrupt"
    using c1 c2 c3 e by simp_all
  from len obtain a b c where abc: "?out = [a, b, c]"
    by (auto simp: numeral_3_eq_3 length_Suc_conv)
  with n0 n1 n2 have r1: "?out = [Decoded decoded_sample_surface, Verbatim sample_padding,
      Verbatim sample_corrupt]"
    by simp
  have all3: "\<forall>index < 3. copied_verbatim sample_accessors (?good ! index)
      \<or> supported_type (GetType sample_accessors (?good ! index))"
  proof (intro allI impI)
    fix index :: nat assume "index < 3"
    then consider "index = 0" | "index = 1" | "index = 2" by linarith
    then show "copied_verbatim sample_accessors (?good ! index)
      \<or> supported_type (GetType sample_accessors (?good ! index))"
      using c1 c2 c4 by cases simp_all
  qed
  note variants = thm1 [THEN conjunct2, THEN conjunct2, THEN conjunct2, THEN conjunct2,
      THEN mp, OF all3]
  from variants [rule_format, of 0] c3
  have d0: "te_data (ImportTileElement sample_accessors sample_surface) \<noteq> ClearedOnly"
    by simp
  from c1 c2 c3 c4 v1 v2 v3 r1 d0 show ?thesis by simp
qed

subsection \<open>Loading from the stream\<close>

lemma nce_ret: "no_checksum_error (ret x)"
  by (simp add: no_checksum_error_def ret_def raises_checksum_error_def)

lemma nce_throw: "\<forall>msg. e \<noteq> IOException msg \<Longrightarrow> no_checksum_error (throw e)"
  by (cases e) (auto simp: no_checksum_error_def throw_def raises_checksum_error_def)

lemma nce_bind:
  "no_checksum_error m \<Longrightarrow> (\<And>x. no_checksum_error (f x)) \<Longrightarrow> no_checksum_error (bind m f)"
  unfolding no_checksum_error_def bind_def
proof (intro allI)
  fix st
  assume m: "\<forall>st. \<not> raises_checksum_error (fst (m st))"
    and f: "\<And>x. \<forall>st. \<not> raises_checksum_error (fst (f x st))"
  obtain r st1 where eq: "m st = (r, st1)" by (cases "m st")
  show "\<not> raises_checksum_error
          (fst (case m st of (Inl e, st1) \<Rightarrow> (Inl e, st1) | (Inr x, st1) \<Rightarrow> f x st1))"
  proof (cases r)
    case (Inl e)
    with m [rule_format, of st] eq show ?thesis
      by (simp add: raises_checksum_error_def)
  next
    case (Inr x)
    with f [of x, rule_format, of st1] eq show ?thesis by simp
  qed
qed

lemma nce_if:
  "no_checksum_error a \<Longrightarrow> no_checksum_error b \<Longrightarrow> no_checksum_error (if c then a else b)"
  by simp

lemma nce_read: "no_checksum_error (chunkReader_ReadChunk ops member n)"
  by (simp add: no_checksum_error_def chunkReader_ReadChunk_def raises_checksum_error_def
        split: sum.splits prod.splits)

lemma nce_export_one: "no_checksum_error (objectRepository_ExportPackedObject ops)"
  by (simp add: no_checksum_error_def objectRepository_ExportPackedObject_def
        raises_checksum_error_def split: sum.splits)

lemma nce_export: "no_checksum_error (export_packed_objects ops k)"
  by (induction k) (simp_all add: nce_ret nce_bind nce_export_one)

lemma nce_LoadFromStream_chunks: "no_checksum_error (LoadFromStream_chunks ops isScenario)"
  unfolding LoadFromStream_chunks_def Let_def
  by (intro nce_bind nce_if nce_read nce_export nce_ret nce_throw) simp_all

text \<open>
  C3 (as amended). The checksum is validated on the scenario path only. There, with
  enforcement on (\<open>allow\<close> false), a mismatch raises the checksum error and leaves the state
  untouched, so no chunk has been read; with enforcement off or a valid checksum no checksum
  error is raised. On the saved-game path no checksum error is ever raised, whatever the flag
  and the checksum.
\<close>

theorem LoadFromStream_checksum:
  "(isScenario \<and> \<not> allow \<and> \<not> ValidateChecksum ops (ls_stream st) \<longrightarrow>
      LoadFromStream ops allow isScenario st = (Inl (IOException ''Invalid checksum.''), st))
   \<and> (allow \<or> ValidateChecksum ops (ls_stream st) \<longrightarrow>
        \<not> raises_checksum_error (fst (LoadFromStream ops allow isScenario st)))
   \<and> \<not> raises_checksum_error (fst (LoadFromStream ops allow False st))"
proof -
  have body: "\<not> raises_checksum_error (fst (LoadFromStream_chunks ops b st))" for b
    using nce_LoadFromStream_chunks [of ops b] by (simp add: no_checksum_error_def)
  show ?thesis
    by (simp add: LoadFromStream_def throw_def body)
qed

lemma ar_ret: "appends_reads (ret x) []"
  by (simp add: appends_reads_def ret_def)

lemma ar_if_throw:
  "appends_reads m xs \<Longrightarrow> appends_reads (if c then throw e else m) xs"
  by (simp add: appends_reads_def throw_def)

lemma ar_bind:
  assumes "appends_reads m xs" and "\<And>x. appends_reads (f x) ys"
  shows "appends_reads (bind m f) (xs @ ys)"
  unfolding appends_reads_def
proof (intro allI impI)
  fix st r st2
  assume run: "bind m f st = (Inr r, st2)"
  obtain q st1 where eq: "m st = (q, st1)" by (cases "m st")
  show "chunk_reads st2 = chunk_reads st @ xs @ ys"
  proof (cases q)
    case (Inl e)
    with run eq show ?thesis by (simp add: bind_def)
  next
    case (Inr x)
    with run eq have "f x st1 = (Inr r, st2)" by (simp add: bind_def)
    with assms(2) [of x] have "chunk_reads st2 = chunk_reads st1 @ ys"
      by (simp add: appends_reads_def)
    moreover from assms(1) eq Inr have "chunk_reads st1 = chunk_reads st @ xs"
      by (simp add: appends_reads_def)
    ultimately show ?thesis by simp
  qed
qed

lemma ar_read: "appends_reads (chunkReader_ReadChunk ops member n) [(member, n)]"
  by (auto simp: appends_reads_def chunkReader_ReadChunk_def chunk_reads_def
        split: sum.splits prod.splits)

lemma ar_bind_read:
  "(\<And>x. appends_reads (f x) ys) \<Longrightarrow>
     appends_reads (bind (chunkReader_ReadChunk ops member n) f) ((member, n) # ys)"
  using ar_bind [OF ar_read, of f ys ops member n] by simp

lemma ar_export_one: "appends_reads (objectRepository_ExportPackedObject ops) []"
  by (auto simp: appends_reads_def objectRepository_ExportPackedObject_def chunk_reads_def
        split: sum.splits)

lemma ar_export: "appends_reads (export_packed_objects ops k) []"
proof (induction k)
  case 0
  show ?case by (simp add: ar_ret)
next
  case (Suc k)
  from ar_bind [OF ar_export_one, of "\<lambda>_. export_packed_objects ops k" "[]" ops] Suc
  show ?case by simp
qed

lemma ar_bind_export:
  "(\<And>x. appends_reads (f x) ys) \<Longrightarrow>
     appends_reads (bind (export_packed_objects ops k) f) ys"
  using ar_bind [OF ar_export, of f ys ops k] by simp

lemma ar_bind_if_info:
  "(\<And>x. appends_reads (f x) ys) \<Longrightarrow>
     appends_reads
       (bind (if c then throw e
              else bind (chunkReader_ReadChunk ops member n) (\<lambda>_. ret ())) f)
       ((member, n) # ys)"
proof -
  assume f: "\<And>x. appends_reads (f x) ys"
  have "appends_reads (if c then throw e
              else bind (chunkReader_ReadChunk ops member n) (\<lambda>_. ret ())) [(member, n)]"
    by (intro ar_if_throw ar_bind_read ar_ret)
  from ar_bind [OF this f] show ?thesis by simp
qed

lemma ar_bind_if_ret:
  "(\<And>x. appends_reads (f x) ys) \<Longrightarrow>
     appends_reads (bind (if c then throw e else ret u) f) ys"
proof -
  assume f: "\<And>x. appends_reads (f x) ys"
  have "appends_reads (if c then throw e else ret u) []"
    by (intro ar_if_throw ar_ret)
  from ar_bind [OF this f] show ?thesis by simp
qed

lemma scenario_reads: "appends_reads (LoadFromStream_chunks ops True) (scenario_layout ops)"
  unfolding LoadFromStream_chunks_def Let_def scenario_layout_def if_True
  by (intro ar_bind_read ar_bind_if_info ar_if_throw ar_bind_export ar_ret)

lemma savedgame_reads: "appends_reads (LoadFromStream_chunks ops False) (savedgame_layout ops)"
  unfolding LoadFromStream_chunks_def Let_def savedgame_layout_def if_False
  by (intro ar_bind_read ar_bind_if_ret ar_if_throw ar_bind_export ar_ret)

lemmas sample_load_defs =
  LoadFromStream_def LoadFromStream_chunks_def bind_def ret_def throw_def Let_def
  chunkReader_ReadChunk_def objectRepository_ExportPackedObject_def
  sample_ops_def start_def scenario_chunk_lengths_def savedgame_chunk_lengths_def

theorem LoadFromStream_checksum_witness:
  "\<not> ValidateChecksum sample_ops (ls_stream (start sample_scenario))
   \<and> LoadFromStream sample_ops False True (start sample_scenario)
       = (Inl (IOException ''Invalid checksum.''), start sample_scenario)
   \<and> \<not> raises_checksum_error (fst (LoadFromStream sample_ops True True (start sample_scenario)))
   \<and> \<not> raises_checksum_error (fst (LoadFromStream sample_ops False False (start sample_savedgame)))"
  using LoadFromStream_checksum [where ops = sample_ops and allow = False and isScenario = True
      and st = "start sample_scenario"]
    LoadFromStream_checksum [where ops = sample_ops and allow = True and isScenario = True
      and st = "start sample_scenario"]
    LoadFromStream_checksum [where ops = sample_ops and allow = False and isScenario = False
      and st = "start sample_savedgame"]
  by (simp add: sample_ops_def start_def sample_scenario_def)

text \<open>
  C3 as stated fails on the saved-game path: with enforcement on and a wrong checksum the load
  of a saved game raises no checksum error and succeeds.
\<close>

theorem LoadFromStream_savedgame_checksum_counterexample:
  "\<not> ValidateChecksum sample_ops (ls_stream (start sample_savedgame))
   \<and> fst (LoadFromStream sample_ops False False (start sample_savedgame))
       = Inr (ss_header sample_savedgame)
   \<and> \<not> raises_checksum_error (fst (LoadFromStream sample_ops False False (start sample_savedgame)))"
  by (simp add: sample_load_defs sample_savedgame_def raises_checksum_error_def)

text \<open>
  C4 (as amended). A successful scenario load reads thirteen chunks and a successful
  saved-game load five. Both start with the header and share, in the same order and with the
  same sizes, the object list, the elapsed-months chunk of 16 bytes and the tile elements; the
  scenario load reads the scenario-info block after the header, and after the tile elements it
  reads eight chunks (2560076, 4, 8, 2, 1082, 16, 4 and 483816 bytes) where the saved-game load
  reads one chunk of 3048816 bytes.
\<close>

theorem LoadFromStream_layouts:
  "(LoadFromStream ops allow True st = (Inr r, st1) \<longrightarrow>
      chunk_reads st1 = chunk_reads st @
        [(s6_header, sizeof_header ops), (s6_info, sizeof_info ops),
         (s6_objects, sizeof_objects ops), (s6_elapsed_months, 16),
         (s6_tile_elements, sizeof_tile_elements ops),
         (s6_next_free_tile_element_pointer_index, 2560076),
         (s6_guests_in_park, 4), (s6_last_guests_in_park, 8), (s6_park_rating, 2),
         (s6_active_research_types, 1082), (s6_current_expenditure, 16), (s6_park_value, 4),
         (s6_completed_company_value, 483816)])
   \<and> (LoadFromStream ops allow False st = (Inr r, st1) \<longrightarrow>
        chunk_reads st1 = chunk_reads st @
          [(s6_header, sizeof_header ops),
           (s6_objects, sizeof_objects ops), (s6_elapsed_months, 16),
           (s6_tile_elements, sizeof_tile_elements ops),
           (s6_next_free_tile_element_pointer_index, 3048816)])"
proof (intro conjI impI)
  assume run: "LoadFromStream ops allow True st = (Inr r, st1)"
  then have "LoadFromStream_chunks ops True st = (Inr r, st1)"
    by (simp add: LoadFromStream_def throw_def split: if_splits)
  with scenario_reads [of ops] have "chunk_reads st1 = chunk_reads st @ scenario_layout ops"
    unfolding appends_reads_def by blast
  then show "chunk_reads st1 = chunk_reads st @
        [(s6_header, sizeof_header ops), (s6_info, sizeof_info ops),
         (s6_objects, sizeof_objects ops), (s6_elapsed_months, 16),
         (s6_tile_elements, sizeof_tile_elements ops),
         (s6_next_free_tile_element_pointer_index, 2560076),
         (s6_guests_in_park, 4), (s6_last_guests_in_park, 8), (s6_park_rating, 2),
         (s6_active_research_types, 1082), (s6_current_expenditure, 16), (s6_park_value, 4),
         (s6_completed_company_value, 483816)]"
    by (simp add: scenario_layout_def)
next
  assume run: "LoadFromStream ops allow False st = (Inr r, st1)"
  then have "LoadFromStream_chunks ops False st = (Inr r, st1)"
    by (simp add: LoadFromStream_def)
  with savedgame_reads [of ops] have "chunk_reads st1 = chunk_reads st @ savedgame_layout ops"
    unfolding appends_reads_def by blast
  then show "chunk_reads st1 = chunk_reads st @
          [(s6_header, sizeof_header ops),
           (s6_objects, sizeof_objects ops), (s6_elapsed_months, 16),
           (s6_tile_elements, sizeof_tile_elements ops),
           (s6_next_free_tile_element_pointer_index, 3048816)]"
    by (simp add: savedgame_layout_def)
qed

theorem LoadFromStream_layouts_witness:
  "fst (LoadFromStream sample_ops True True (start sample_scenario))
     = Inr (ss_header sample_scenario)
   \<and> chunk_reads (snd (LoadFromStream sample_ops True True (start sample_scenario)))
       = [(s6_header, 32), (s6_info, 408), (s6_objects, 11536), (s6_elapsed_months, 16),
          (s6_tile_elements, 1572864), (s6_next_free_tile_element_pointer_index, 2560076),
          (s6_guests_in_park, 4), (s6_last_guests_in_park, 8), (s6_park_rating, 2),
          (s6_active_research_types, 1082), (s6_current_expenditure, 16), (s6_park_value, 4),
          (s6_completed_company_value, 483816)]
   \<and> fst (LoadFromStream sample_ops True False (start sample_savedgame))
       = Inr (ss_header sample_savedgame)
   \<and> chunk_reads (snd (LoadFromStream sample_ops True False (start sample_savedgame)))
       = [(s6_header, 32), (s6_objects, 11536), (s6_elapsed_months, 16),
          (s6_tile_elements, 1572864), (s6_next_free_tile_element_pointer_index, 3048816)]"
proof -
  let ?sc = "LoadFromStream sample_ops True True (start sample_scenario)"
  let ?sv = "LoadFromStream sample_ops True False (start sample_savedgame)"
  have f1: "fst ?sc = Inr (ss_header sample_scenario)"
    by (simp add: sample_load_defs sample_scenario_def)
  have f2: "fst ?sv = Inr (ss_header sample_savedgame)"
    by (simp add: sample_load_defs sample_savedgame_def)
  have run1: "?sc = (Inr (ss_header sample_scenario), snd ?sc)"
    using f1 by (simp add: prod_eq_iff)
  have run2: "?sv = (Inr (ss_header sample_savedgame), snd ?sv)"
    using f2 by (simp add: prod_eq_iff)
  have empty: "chunk_reads (start s) = []" for s :: sample_stream
    by (simp add: chunk_reads_def start_def)
  from LoadFromStream_layouts [THEN conjunct1, THEN mp, OF run1]
  have r1: "chunk_reads (snd ?sc) =
        [(s6_header, 32), (s6_info, 408), (s6_objects, 11536), (s6_elapsed_months, 16),
          (s6_tile_elements, 1572864), (s6_next_free_tile_element_pointer_index, 2560076),
          (s6_guests_in_park, 4), (s6_last_guests_in_park, 8), (s6_park_rating, 2),
          (s6_active_research_types, 1082), (s6_current_expenditure, 16), (s6_park_value, 4),
          (s6_completed_company_value, 483816)]"
    by (simp add: empty sample_ops_def)
  from LoadFromStream_layouts [THEN conjunct2, THEN mp, OF run2]
  have r2: "chunk_reads (snd ?sv) =
        [(s6_header, 32), (s6_objects, 11536), (s6_elapsed_months, 16),
          (s6_tile_elements, 1572864), (s6_next_free_tile_element_pointer_index, 3048816)]"
    by (simp add: empty sample_ops_def)
  from f1 r1 f2 r2 show ?thesis by simp
qed

text \<open>
  C4 as stated fails: with the scenario-info read set aside, the scenario sequence has twelve
  reads and the saved-game sequence five, so they are not the same reads up to two sizes.
\<close>

theorem LoadFromStream_layouts_counterexample:
  "\<not> differ_in_two_sizes_and_info
        (chunk_reads (snd (LoadFromStream sample_ops True True (start sample_scenario))))
        (chunk_reads (snd (LoadFromStream sample_ops True False (start sample_savedgame))))"
proof -
  have r1: "chunk_reads (snd (LoadFromStream sample_ops True True (start sample_scenario)))
      = scenario_layout sample_ops"
    by (simp add: sample_load_defs sample_scenario_def chunk_reads_def scenario_layout_def)
  have r2: "chunk_reads (snd (LoadFromStream sample_ops True False (start sample_savedgame)))
      = savedgame_layout sample_ops"
    by (simp add: sample_load_defs sample_savedgame_def chunk_reads_def savedgame_layout_def)
  show ?thesis
    unfolding r1 r2
    by (simp add: differ_in_two_sizes_and_info_def scenario_layout_def savedgame_layout_def)
qed

text \<open>
  C5 (as amended). Once the checksum test has passed and the header chunk has been read: a
  header type that is not the one of the selected layout raises a \<^verbatim>\<open>std::runtime_error\<close>
  ("Park is not a scenario." or "Park is not a saved game."), not the unsupported-format
  exception, and nothing more is read; a header of the selected type whose classic flag is 0xf
  raises \<^verbatim>\<open>UnsupportedRCTCFlagException\<close>, for a scenario after the scenario-info chunk
  has been read. In each case the load ends there with the error.
\<close>

theorem LoadFromStream_header_errors:
  assumes "\<not> (isScenario \<and> \<not> allow \<and> \<not> ValidateChecksum ops (ls_stream st))"
    and "chunkReader_ReadChunk ops s6_header (sizeof_header ops) st = (Inr chunk, st1)"
  shows "(isScenario \<and> hdr_type (header_of ops chunk) \<noteq> S6_TYPE_SCENARIO \<longrightarrow>
            LoadFromStream ops allow isScenario st
              = (Inl (RuntimeError ''Park is not a scenario.''), st1))
       \<and> (\<not> isScenario \<and> hdr_type (header_of ops chunk) \<noteq> S6_TYPE_SAVEDGAME \<longrightarrow>
            LoadFromStream ops allow isScenario st
              = (Inl (RuntimeError ''Park is not a saved game.''), st1))
       \<and> (\<not> isScenario \<and> hdr_type (header_of ops chunk) = S6_TYPE_SAVEDGAME
            \<and> hdr_classic_flag (header_of ops chunk) = 0xf \<longrightarrow>
            LoadFromStream ops allow isScenario st
              = (Inl (UnsupportedRCTCFlagException 0xf), st1))
       \<and> (isScenario \<and> hdr_type (header_of ops chunk) = S6_TYPE_SCENARIO
            \<and> hdr_classic_flag (header_of ops chunk) = 0xf
            \<and> chunkReader_ReadChunk ops s6_info (sizeof_info ops) st1 = (Inr info, st2) \<longrightarrow>
            LoadFromStream ops allow isScenario st
              = (Inl (UnsupportedRCTCFlagException 0xf), st2))"
proof -
  have gate: "LoadFromStream ops allow isScenario st = LoadFromStream_chunks ops isScenario st"
    using assms(1) by (auto simp: LoadFromStream_def)
  show ?thesis
    unfolding gate
    by (simp add: LoadFromStream_chunks_def bind_def assms(2) Let_def throw_def ret_def)
qed

theorem LoadFromStream_header_errors_witness:
  "hdr_type (ss_header sample_savedgame) \<noteq> S6_TYPE_SCENARIO
   \<and> fst (LoadFromStream sample_ops True True (start sample_savedgame))
       = Inl (RuntimeError ''Park is not a scenario.'')
   \<and> hdr_type (ss_header sample_scenario) \<noteq> S6_TYPE_SAVEDGAME
   \<and> fst (LoadFromStream sample_ops True False (start sample_scenario))
       = Inl (RuntimeError ''Park is not a saved game.'')
   \<and> hdr_classic_flag (ss_header sample_classic) = 0xf
   \<and> fst (LoadFromStream sample_ops False False (start sample_classic))
       = Inl (UnsupportedRCTCFlagException 0xf)
   \<and> hdr_classic_flag (ss_header sample_classic_scenario) = 0xf
   \<and> fst (LoadFromStream sample_ops False True (start sample_classic_scenario))
       = Inl (UnsupportedRCTCFlagException 0xf)
   \<and> chunk_reads (snd (LoadFromStream sample_ops False True (start sample_classic_scenario)))
       = [(s6_header, 32), (s6_info, 408)]"
proof -
  let ?hdr = "\<lambda>s. chunkReader_ReadChunk sample_ops s6_header (sizeof_header sample_ops) (start s)"
  have h: "?hdr s = (Inr (ss_header s), snd (?hdr s))"
    if "ss_chunk_lengths s = 32 # rest" for s rest
    using that by (simp add: chunkReader_ReadChunk_def sample_ops_def start_def)
  have h1: "?hdr sample_savedgame = (Inr (ss_header sample_savedgame), snd (?hdr sample_savedgame))"
    by (rule h) (simp add: sample_savedgame_def savedgame_chunk_lengths_def)
  have h2: "?hdr sample_scenario = (Inr (ss_header sample_scenario), snd (?hdr sample_scenario))"
    by (rule h) (simp add: sample_scenario_def scenario_chunk_lengths_def)
  have h3: "?hdr sample_classic = (Inr (ss_header sample_classic), snd (?hdr sample_classic))"
    by (rule h) (simp add: sample_classic_def savedgame_chunk_lengths_def)
  have h4: "?hdr sample_classic_scenario
      = (Inr (ss_header sample_classic_scenario), snd (?hdr sample_classic_scenario))"
    by (rule h) (simp add: sample_classic_scenario_def scenario_chunk_lengths_def)
  let ?info = "chunkReader_ReadChunk sample_ops s6_info (sizeof_info sample_ops)
      (snd (?hdr sample_classic_scenario))"
  have i4: "?info = (Inr (ss_header sample_classic_scenario), snd ?info)"
    by (simp add: chunkReader_ReadChunk_def sample_ops_def start_def
          sample_classic_scenario_def scenario_chunk_lengths_def)
  have g1: "\<not> (True \<and> \<not> True \<and> \<not> ValidateChecksum sample_ops (ls_stream (start sample_savedgame)))"
    and g2: "\<not> (False \<and> \<not> True \<and> \<not> ValidateChecksum sample_ops (ls_stream (start sample_scenario)))"
    and g3: "\<not> (False \<and> \<not> False \<and> \<not> ValidateChecksum sample_ops (ls_stream (start sample_classic)))"
    and g4: "\<not> (True \<and> \<not> False
                \<and> \<not> ValidateChecksum sample_ops (ls_stream (start sample_classic_scenario)))"
    by (simp_all add: sample_ops_def start_def sample_classic_scenario_def)
  have reads: "chunk_reads (snd ?info) = [(s6_header, 32), (s6_info, 408)]"
    by (simp add: chunkReader_ReadChunk_def sample_ops_def start_def chunk_reads_def
          sample_classic_scenario_def scenario_chunk_lengths_def)
  from LoadFromStream_header_errors [OF g1 h1] LoadFromStream_header_errors [OF g2 h2]
    LoadFromStream_header_errors [OF g3 h3]
    LoadFromStream_header_errors [OF g4 h4, where info = "ss_header sample_classic_scenario"
      and ?st2.0 = "snd ?info"] i4 reads
  show ?thesis
    by (simp add: sample_ops_def sample_savedgame_def sample_scenario_def sample_classic_def
          sample_classic_scenario_def)
qed

text \<open>
  C5 as stated fails for a type mismatch: a saved game loaded as a scenario raises the runtime
  error "Park is not a scenario.", which is not the unsupported-format exception.
\<close>

theorem LoadFromStream_type_mismatch_counterexample:
  "hdr_type (ss_header sample_savedgame) \<noteq> S6_TYPE_SCENARIO
   \<and> fst (LoadFromStream sample_ops True True (start sample_savedgame))
       = Inl (RuntimeError ''Park is not a scenario.'')
   \<and> \<not> raises_UnsupportedFormatError
          (fst (LoadFromStream sample_ops True True (start sample_savedgame)))"
  by (simp add: sample_load_defs sample_savedgame_def raises_UnsupportedFormatError_def)

subsection \<open>Filename-keyed corrections\<close>

text \<open>
  C9. The corrections are keyed by exact equality of \<^verbatim>\<open>_s6.scenario_filename\<close> with one
  of six literal names. For any other filename the corrections of \<^verbatim>\<open>ImportPeepSpawns\<close>
  leave \<^verbatim>\<open>_s6\<close> as it is, the spawn list is the one the loop builds from the unmodified
  array, and the land-ownership correction of \<^verbatim>\<open>Import\<close> leaves the map as it is. The
  corrections are total functions: there is no error to raise.
\<close>

theorem unregistered_filename_no_fixup:
  assumes "scenario_filename s6 \<notin> set registered_filenames"
  shows "ImportPeepSpawns_fixups s6 = s6
       \<and> ImportPeepSpawns s6 = (s6, ImportPeepSpawns_loop (peep_spawns s6) [])
       \<and> Import_fix_land_ownership FixLandOwnershipTilesWithOwnership OWNERSHIP_OWNED
            (scenario_filename s6) world = world"
proof -
  from assms have names:
    "scenario_filename s6 \<noteq> ''WW South America - Rio Carnival.SC6''"
    "scenario_filename s6 \<noteq> ''South America - Rio Carnival.SC6''"
    "scenario_filename s6 \<noteq> ''Great Wall of China Tourism Enhancement.SC6''"
    "scenario_filename s6 \<noteq> ''Asia - Great Wall of China Tourism Enhancement.SC6''"
    "scenario_filename s6 \<noteq> ''Amity Airfield.SC6''"
    "scenario_filename s6 \<noteq> ''Europe - European Cultural Festival.SC6''"
    by (auto simp: registered_filenames_def)
  have same: "ImportPeepSpawns_fixups s6 = s6"
    using names(1-5) by (simp add: ImportPeepSpawns_fixups_def String_Equals_def)
  have land: "Import_fix_land_ownership FixLandOwnershipTilesWithOwnership OWNERSHIP_OWNED
            (scenario_filename s6) world = world"
    using names(6) by (simp add: Import_fix_land_ownership_def String_Equals_def)
  from same land show ?thesis
    by (simp add: ImportPeepSpawns_def)
qed

theorem unregistered_filename_no_fixup_witness:
  "scenario_filename park_lower_case \<notin> set registered_filenames
   \<and> ImportPeepSpawns_fixups park_lower_case = park_lower_case
   \<and> snd (ImportPeepSpawns park_lower_case)
       = [\<lparr>spawn_x = 1200, spawn_y = 1280, spawn_z = 112, spawn_direction = 0\<rparr>]
   \<and> Import_fix_land_ownership sample_FixLandOwnership 32
        (scenario_filename park_lower_case) [] = []
   \<and> snd (ImportPeepSpawns park_amity)
       = [\<lparr>spawn_x = 1200, spawn_y = 1296, spawn_z = 112, spawn_direction = 0\<rparr>]"
proof -
  have unreg: "scenario_filename park_lower_case \<notin> set registered_filenames"
    by (simp add: park_lower_case_def registered_filenames_def)
  have amity: "snd (ImportPeepSpawns park_amity)
       = [\<lparr>spawn_x = 1200, spawn_y = 1296, spawn_z = 112, spawn_direction = 0\<rparr>]"
    by (simp add: ImportPeepSpawns_def ImportPeepSpawns_fixups_def String_Equals_def
          park_amity_def sample_spawns_def PEEP_SPAWN_UNDEFINED_def)
  from unregistered_filename_no_fixup [OF unreg, of sample_FixLandOwnership 32 "[]"] unreg amity
  show ?thesis
    by (simp add: park_lower_case_def sample_spawns_def PEEP_SPAWN_UNDEFINED_def)
qed

end
